theory Spec2Isabelle
  imports Complex_Main
begin

section \<open>Strings of the host language\<close>

text \<open>
  A source string is a sequence of UTF-16 code units. The model uses \<open>string\<close>, one
  \<open>char\<close> per code unit, so it covers the code units below 256. The character classes
  below are the host language's, cut down to that range.
\<close>

definition nl :: char where
  "nl = CHR 0x0A"

definition bq :: char where
  "bq = CHR 0x60"

definition dq :: char where
  "dq = CHR 0x22"

definition quoted :: "string \<Rightarrow> string" where
  "quoted s = [dq] @ s @ [dq]"

definition isLineTerminator :: "char \<Rightarrow> bool" where
  "isLineTerminator c = (c = CHR 0x0A \<or> c = CHR 0x0D)"

definition isWhiteSpace :: "char \<Rightarrow> bool" where
  "isWhiteSpace c = (c = CHR 0x09 \<or> c = CHR 0x0A \<or> c = CHR 0x0B \<or> c = CHR 0x0C
     \<or> c = CHR 0x0D \<or> c = CHR 0x20 \<or> c = CHR 0xA0)"

definition in_range :: "char \<Rightarrow> char \<Rightarrow> char \<Rightarrow> bool" where
  "in_range lo hi c = ((of_char lo :: nat) \<le> of_char c \<and> (of_char c :: nat) \<le> of_char hi)"

definition isWordChar :: "char \<Rightarrow> bool" where
  "isWordChar c = (in_range CHR ''a'' CHR ''z'' c \<or> in_range CHR ''A'' CHR ''Z'' c
     \<or> in_range CHR ''0'' CHR ''9'' c \<or> c = CHR ''_'')"

text \<open>\<open>String.prototype.trim\<close>: white space and line terminators go from both ends.\<close>

definition trim :: "string \<Rightarrow> string" where
  "trim s = rev (dropWhile isWhiteSpace (rev (dropWhile isWhiteSpace s)))"

fun startsWith :: "string \<Rightarrow> string \<Rightarrow> bool" where
  "startsWith s [] = True"
| "startsWith [] (p # ps) = False"
| "startsWith (c # cs) (p # ps) = (c = p \<and> startsWith cs ps)"

definition endsWith :: "string \<Rightarrow> string \<Rightarrow> bool" where
  "endsWith s p = startsWith (rev s) (rev p)"

fun str_includes :: "string \<Rightarrow> string \<Rightarrow> bool" where
  "str_includes [] p = (p = [])"
| "str_includes (c # cs) p = (startsWith (c # cs) p \<or> str_includes cs p)"

text \<open>\<open>s.split(c)\<close> for a one-character separator; the empty string gives one empty piece.\<close>

fun split :: "char \<Rightarrow> string \<Rightarrow> string list" where
  "split c [] = [[]]"
| "split c (x # xs) =
     (if x = c then [] # split c xs
      else (case split c xs of [] \<Rightarrow> [[x]] | l # ls \<Rightarrow> (x # l) # ls))"

text \<open>\<open>xs.join(sep)\<close>.\<close>

fun join :: "string \<Rightarrow> string list \<Rightarrow> string" where
  "join sep [] = []"
| "join sep [x] = x"
| "join sep (x # y # ys) = x @ sep @ join sep (y # ys)"

section \<open>Numbers of the host language\<close>

text \<open>
  A number of the host is a double: a finite value, an infinity, or \<open>NaN\<close>. The finite
  doubles are rational numbers; the model keeps a finite value as a rational. (The sign of
  a zero is not kept: the code reads a number only through comparisons, truthiness and its
  text, which do not tell \<open>-0\<close> from \<open>0\<close>.)
\<close>

datatype number = Finite rat | PlusInfinity | MinusInfinity | NaN

text \<open>The value of a run of decimal digits, and the decimal digits of a whole number that
  is not negative.\<close>

definition int_of_dec :: "string \<Rightarrow> int" where
  "int_of_dec s = foldl (\<lambda>n c. 10 * n + (of_char c - 48)) 0 s"

function decimal :: "int \<Rightarrow> string" where
  "decimal n = (if n < 10 then [char_of (48 + n)] else decimal (n div 10) @ [char_of (48 + n mod 10)])"
  by pat_completeness auto
termination
  by (relation "measure nat") auto

subsection \<open>Rounding to a double\<close>

definition pow2 :: "int \<Rightarrow> rat" where
  "pow2 k = (if 0 \<le> k then 2 ^ nat k else 1 / 2 ^ nat (- k))"

definition pow10 :: "int \<Rightarrow> rat" where
  "pow10 k = (if 0 \<le> k then 10 ^ nat k else 1 / 10 ^ nat (- k))"

text \<open>The number of binary digits of a positive whole number.\<close>

function bit_length :: "int \<Rightarrow> int" where
  "bit_length n = (if n \<le> 0 then 0 else 1 + bit_length (n div 2))"
  by pat_completeness auto
termination
  by (relation "measure nat") auto

text \<open>For a positive \<open>v\<close>, the exponent \<open>e\<close> with \<open>2^e \<le> v < 2^(e+1)\<close>.\<close>

definition binary_exponent :: "rat \<Rightarrow> int" where
  "binary_exponent v =
     (let (a, b) = quotient_of v;
          c = bit_length a - bit_length b
      in if pow2 c \<le> v then c else c - 1)"

definition round_half_even :: "rat \<Rightarrow> int" where
  "round_half_even t =
     (let f = \<lfloor>t\<rfloor>; r = t - of_int f
      in if r < 1 / 2 then f else if 1 / 2 < r then f + 1 else if even f then f else f + 1)"

text \<open>
  The double nearest to a positive \<open>v\<close>, ties going to the even significand: doubles have
  53 binary digits, and below \<open>2^-1022\<close> they are the multiples of \<open>2^-1074\<close>. The result
  is \<open>2^1024\<close> or more when \<open>v\<close> is beyond the largest double.
\<close>

definition nearest_double :: "rat \<Rightarrow> rat" where
  "nearest_double v =
     (let ulp = pow2 (max (binary_exponent v - 52) (- 1074))
      in of_int (round_half_even (v / ulp)) * ulp)"

text \<open>The number that the host makes of a mathematical value.\<close>

definition to_number :: "rat \<Rightarrow> number" where
  "to_number v =
     (if v = 0 then Finite 0
      else let d = nearest_double \<bar>v\<bar>
           in if pow2 1024 \<le> d then (if 0 < v then PlusInfinity else MinusInfinity)
              else Finite (if 0 < v then d else - d))"

subsection \<open>The text of a number\<close>

text \<open>
  \<open>Number.prototype.toString\<close>: the digits are the shortest run \<open>s\<close> of \<open>k\<close> decimal digits
  such that \<open>s * 10^(n-k)\<close> is read back as the same double, the nearest to it when there
  are two; then \<open>n\<close> decides between plain and exponent notation.
\<close>

text \<open>For a positive \<open>x\<close>, the exponent \<open>n\<close> with \<open>10^(n-1) \<le> x < 10^n\<close>.\<close>

definition decimal_exponent :: "rat \<Rightarrow> int" where
  "decimal_exponent x =
     (let (a, b) = quotient_of x;
          c = int (length (decimal a)) - int (length (decimal b))
      in if pow10 c \<le> x then c + 1 else c)"

text \<open>The runs of \<open>k\<close> digits next to \<open>x\<close> that are read back as \<open>x\<close>, the nearer first.\<close>

definition candidates :: "rat \<Rightarrow> int \<Rightarrow> nat \<Rightarrow> (int \<times> int) list" where
  "candidates x n k =
     (let t = x / pow10 (n - int k);
          lo = \<lfloor>t\<rfloor>;
          r = t - of_int lo;
          low = (lo, n);
          high = (if lo + 1 = 10 ^ k then (10 ^ (k - 1), n + 1) else (lo + 1, n))
      in filter (\<lambda>(s, n'). to_number (of_int s * pow10 (n' - int k)) = Finite x)
           (if r < 1 / 2 \<or> (r = 1 / 2 \<and> even lo) then [low, high] else [high, low]))"

text \<open>The search for the least \<open>k\<close>; seventeen digits are enough for every double.\<close>

fun shortest :: "rat \<Rightarrow> int \<Rightarrow> nat \<Rightarrow> nat \<Rightarrow> int \<times> int \<times> nat" where
  "shortest x n k 0 = (\<lfloor>x / pow10 (n - int k)\<rfloor>, n, k)"
| "shortest x n k (Suc fuel) =
     (case candidates x n k of
        (s, n') # _ \<Rightarrow> (s, n', k)
      | [] \<Rightarrow> shortest x n (Suc k) fuel)"

definition positive_text :: "rat \<Rightarrow> string" where
  "positive_text x =
     (let (s, n, k) = shortest x (decimal_exponent x) 1 17;
          ds = decimal s
      in if int k \<le> n \<and> n \<le> 21 then ds @ replicate (nat (n - int k)) CHR ''0''
         else if 0 < n \<and> n \<le> 21 then take (nat n) ds @ ''.'' @ drop (nat n) ds
         else if - 6 < n \<and> n \<le> 0 then ''0.'' @ replicate (nat (- n)) CHR ''0'' @ ds
         else (let e = n - 1;
                   ex = (if 0 \<le> e then ''+'' else ''-'') @ decimal \<bar>e\<bar>
               in if k = 1 then ds @ ''e'' @ ex else take 1 ds @ ''.'' @ drop 1 ds @ ''e'' @ ex))"

fun number_text :: "number \<Rightarrow> string" where
  "number_text NaN = ''NaN''"
| "number_text PlusInfinity = ''Infinity''"
| "number_text MinusInfinity = ''-Infinity''"
| "number_text (Finite x) =
     (if x = 0 then ''0'' else if x < 0 then ''-'' @ positive_text (- x) else positive_text x)"

subsection \<open>Number literals\<close>

text \<open>
  The mathematical value of a JSON number literal \<open>-? digits (. digits)? ([eE] [+-]? digits)?\<close>,
  and the number the host reads it as: the double nearest to that value, whatever the
  length of the literal.
\<close>

definition number_value :: "string \<Rightarrow> rat" where
  "number_value l =
     (let negative = startsWith l ''-'';
          body = (if negative then tl l else l);
          mantissa = takeWhile (\<lambda>c. c \<noteq> CHR ''e'' \<and> c \<noteq> CHR ''E'') body;
          exponent = drop (Suc (length mantissa)) body;
          whole = takeWhile (\<lambda>c. c \<noteq> CHR ''.'') mantissa;
          fraction = drop (Suc (length whole)) mantissa;
          e = (if startsWith exponent ''-'' then - int_of_dec (tl exponent)
               else if startsWith exponent ''+'' then int_of_dec (tl exponent)
               else int_of_dec exponent);
          v = of_int (int_of_dec (whole @ fraction)) * pow10 (e - int (length fraction))
      in if negative then - v else v)"

definition json_number :: "string \<Rightarrow> number" where
  "json_number l = to_number (number_value l)"

section \<open>Regular expressions\<close>

text \<open>
  The tools scan text with regular-expression literals. A literal is written here as a term
  of \<open>re\<close>, and matched by a backtracking matcher that lists the end states of all
  matches at a position in the order in which the host's matcher tries them: the first
  element is the match the host reports. \<open>Rep mn mx greedy r\<close> is a quantifier
  (\<open>mx = None\<close> for no upper bound), \<open>Cap n r\<close> the n-th capture group.
\<close>

datatype citem = Ch char | Rng char char | WordCh | SpaceCh | NonSpaceCh | NoCase citem

datatype re =
    Emp
  | Chr char
  | Cls bool "citem list"
  | Dot
  | Bol
  | Eol
  | Cat re re
  | Alt re re
  | Rep nat "nat option" bool re
  | Cap nat re

definition seq :: "re list \<Rightarrow> re" where
  "seq rs = foldr Cat rs Emp"

definition lit :: "string \<Rightarrow> re" where
  "lit s = seq (map Chr s)"

definition star :: "re \<Rightarrow> re" where
  "star r = Rep 0 None True r"

definition lazy_star :: "re \<Rightarrow> re" where
  "lazy_star r = Rep 0 None False r"

definition many1 :: "re \<Rightarrow> re" where
  "many1 r = Rep 1 None True r"

definition opt :: "re \<Rightarrow> re" where
  "opt r = Rep 0 (Some 1) True r"

definition one_of :: "citem list \<Rightarrow> re" where
  "one_of items = Cls False items"

definition none_of :: "citem list \<Rightarrow> re" where
  "none_of items = Cls True items"

text \<open>
  The code units that the \<open>i\<close> flag identifies with a given one: itself and, for a
  letter, the same letter in the other case. (Of the code units below 256 the sharp s, the
  micro sign and the y with diaeresis are identified with no other one below 256.)
\<close>

definition case_variants :: "char \<Rightarrow> char list" where
  "case_variants c =
     (if in_range CHR ''a'' CHR ''z'' c
         \<or> (in_range (CHR 0xE0) (CHR 0xFE) c \<and> c \<noteq> CHR 0xF7)
      then [c, char_of (of_char c - (32::nat))]
      else if in_range CHR ''A'' CHR ''Z'' c
         \<or> (in_range (CHR 0xC0) (CHR 0xDE) c \<and> c \<noteq> CHR 0xD7)
      then [c, char_of (of_char c + (32::nat))]
      else [c])"

text \<open>\<open>NoCase i\<close> is the class item \<open>i\<close> under the \<open>i\<close> flag.\<close>

fun citem_has :: "citem \<Rightarrow> char \<Rightarrow> bool" where
  "citem_has (Ch d) c = (c = d)"
| "citem_has (Rng lo hi) c = in_range lo hi c"
| "citem_has WordCh c = isWordChar c"
| "citem_has SpaceCh c = isWhiteSpace c"
| "citem_has NonSpaceCh c = (\<not> isWhiteSpace c)"
| "citem_has (NoCase i) c = list_ex (citem_has i) (case_variants c)"

text \<open>
  A matcher state: the code unit before the current position (for \<open>^\<close>), the text still
  to be read, and the captures made so far (latest first).
\<close>

record mstate =
  prev :: "char option"
  rest :: string
  caps :: "(nat \<times> string) list"

definition one_char :: "(char \<Rightarrow> bool) \<Rightarrow> mstate \<Rightarrow> mstate list" where
  "one_char p s = (case rest s of [] \<Rightarrow> []
     | c # cs \<Rightarrow> if p c then [s\<lparr>prev := Some c, rest := cs\<rparr>] else [])"

text \<open>
  The quantifier. While iterations are still owed (\<open>0 < mn\<close>) an iteration may match the
  empty string; after that an iteration that consumes nothing is rejected, as in the
  host's matcher.
\<close>

function rep :: "(mstate \<Rightarrow> mstate list) \<Rightarrow> nat \<Rightarrow> nat option \<Rightarrow> bool \<Rightarrow> mstate \<Rightarrow> mstate list" where
  "rep f mn mx greedy s =
     (if mx = Some 0 then [s]
      else
        let nexts = filter (\<lambda>t. if mn = 0 then length (rest t) < length (rest s)
                                  else length (rest t) \<le> length (rest s)) (f s);
            more = concat (map (rep f (mn - 1) (map_option (\<lambda>k. k - 1) mx) greedy) nexts)
        in if 0 < mn then more else if greedy then more @ [s] else s # more)"
  by pat_completeness auto
termination
  by (relation "measure (\<lambda>(f, mn, mx, g, s). mn + length (rest s))") (auto split: if_splits)

declare rep.simps [simp del]

text \<open>\<open>mt ml r s\<close>: the matches of \<open>r\<close> from state \<open>s\<close>; \<open>ml\<close> is the \<open>m\<close> flag.\<close>

primrec mt :: "bool \<Rightarrow> re \<Rightarrow> mstate \<Rightarrow> mstate list" where
  "mt ml Emp = (\<lambda>s. [s])"
| "mt ml (Chr c) = one_char (\<lambda>x. x = c)"
| "mt ml (Cls neg items) = one_char (\<lambda>x. (\<exists>i \<in> set items. citem_has i x) \<noteq> neg)"
| "mt ml Dot = one_char (\<lambda>x. \<not> isLineTerminator x)"
| "mt ml Bol = (\<lambda>s. case prev s of None \<Rightarrow> [s]
                       | Some c \<Rightarrow> if ml \<and> isLineTerminator c then [s] else [])"
| "mt ml Eol = (\<lambda>s. case rest s of [] \<Rightarrow> [s]
                       | c # _ \<Rightarrow> if ml \<and> isLineTerminator c then [s] else [])"
| "mt ml (Cat a b) = (\<lambda>s. concat (map (mt ml b) (mt ml a s)))"
| "mt ml (Alt a b) = (\<lambda>s. mt ml a s @ mt ml b s)"
| "mt ml (Rep mn mx greedy r) = rep (mt ml r) mn mx greedy"
| "mt ml (Cap n r) = (\<lambda>s. map (\<lambda>t. t\<lparr>caps :=
       (n, take (length (rest s) - length (rest t)) (rest s)) # caps t\<rparr>) (mt ml r s))"

text \<open>
  An expression with the \<open>i\<close> flag is the same expression with every literal and every
  class item read without regard to case.
\<close>

fun ignore_case :: "re \<Rightarrow> re" where
  "ignore_case Emp = Emp"
| "ignore_case (Chr c) = Cls False [NoCase (Ch c)]"
| "ignore_case (Cls neg items) = Cls neg (map NoCase items)"
| "ignore_case Dot = Dot"
| "ignore_case Bol = Bol"
| "ignore_case Eol = Eol"
| "ignore_case (Cat a b) = Cat (ignore_case a) (ignore_case b)"
| "ignore_case (Alt a b) = Alt (ignore_case a) (ignore_case b)"
| "ignore_case (Rep mn mx greedy r) = Rep mn mx greedy (ignore_case r)"
| "ignore_case (Cap n r) = Cap n (ignore_case r)"

text \<open>
  A match as the host returns it: \<open>whole\<close> is \<open>match[0]\<close>, \<open>grp m n\<close> is \<open>match[n]\<close>
  (\<open>None\<close> for a group that took no part), and \<open>m_prev\<close>, \<open>m_rest\<close> describe the position
  where the match ends (the regular expression's \<open>lastIndex\<close>).
\<close>

record rmatch =
  whole :: string
  groups :: "(nat \<times> string) list"
  m_prev :: "char option"
  m_rest :: string

definition grp :: "rmatch \<Rightarrow> nat \<Rightarrow> string option" where
  "grp m n = map_of (groups m) n"

text \<open>\<open>match[n]\<close> of a group that takes part in every match of its expression.\<close>

definition grp_str :: "rmatch \<Rightarrow> nat \<Rightarrow> string" where
  "grp_str m n = (case grp m n of None \<Rightarrow> [] | Some g \<Rightarrow> g)"

text \<open>\<open>match[n] || d\<close>: an absent or empty group gives the default.\<close>

definition grp_or :: "rmatch \<Rightarrow> nat \<Rightarrow> string \<Rightarrow> string" where
  "grp_or m n d = (case grp m n of None \<Rightarrow> d | Some g \<Rightarrow> if g = [] then d else g)"



text \<open>The leftmost match at or after the current position.\<close>

fun find_from :: "bool \<Rightarrow> re \<Rightarrow> char option \<Rightarrow> string \<Rightarrow> rmatch option" where
  "find_from ml r p [] =
     (case mt ml r \<lparr>prev = p, rest = [], caps = []\<rparr> of
        [] \<Rightarrow> None
      | t # _ \<Rightarrow> Some \<lparr>whole = [], groups = caps t, m_prev = prev t, m_rest = rest t\<rparr>)"
| "find_from ml r p (c # cs) =
     (case mt ml r \<lparr>prev = p, rest = c # cs, caps = []\<rparr> of
        [] \<Rightarrow> find_from ml r (Some c) cs
      | t # _ \<Rightarrow> Some \<lparr>whole = take (length (c # cs) - length (rest t)) (c # cs),
                        groups = caps t, m_prev = prev t, m_rest = rest t\<rparr>)"

text \<open>\<open>s.match(r)\<close> for an expression without the \<open>g\<close> flag.\<close>

definition match1 :: "bool \<Rightarrow> re \<Rightarrow> string \<Rightarrow> rmatch option" where
  "match1 ml r s = find_from ml r None s"

text \<open>
  \<open>while ((match = r.exec(s)) !== null)\<close> for an expression with the \<open>g\<close> flag: each
  call searches from \<open>lastIndex\<close>, the end of the previous match. A match that does not
  move \<open>lastIndex\<close> forward would be found again for ever: the loop then does not return,
  which is the value \<open>None\<close>.
\<close>

function exec_loop :: "bool \<Rightarrow> re \<Rightarrow> char option \<Rightarrow> string \<Rightarrow> rmatch list option" where
  "exec_loop ml r p cs =
     (case find_from ml r p cs of
        None \<Rightarrow> Some []
      | Some m \<Rightarrow>
          if length (m_rest m) < length cs
          then map_option (Cons m) (exec_loop ml r (m_prev m) (m_rest m))
          else None)"
  by pat_completeness auto
termination
  by (relation "measure (\<lambda>(ml, r, p, cs). length cs)") auto

declare exec_loop.simps [simp del]

definition exec_all :: "bool \<Rightarrow> re \<Rightarrow> string \<Rightarrow> rmatch list option" where
  "exec_all ml r s = exec_loop ml r None s"

text \<open>
  \<open>s.match(r)\<close> for an expression with the \<open>g\<close> flag: all matches, left to right; after
  an empty match the search moves on by one code unit.
\<close>

function match_loop :: "bool \<Rightarrow> re \<Rightarrow> char option \<Rightarrow> string \<Rightarrow> rmatch list" where
  "match_loop ml r p cs =
     (case find_from ml r p cs of
        None \<Rightarrow> []
      | Some m \<Rightarrow>
          if length (m_rest m) < length cs
          then m # match_loop ml r (m_prev m) (m_rest m)
          else (case cs of [] \<Rightarrow> [m] | c # cs' \<Rightarrow> m # match_loop ml r (Some c) cs'))"
  by pat_completeness auto
termination
  by (relation "measure (\<lambda>(ml, r, p, cs). length cs)") auto

declare match_loop.simps [simp del]

definition match_g :: "bool \<Rightarrow> re \<Rightarrow> string \<Rightarrow> rmatch list" where
  "match_g ml r s = match_loop ml r None s"

section \<open>The markdown structural parser (parse-markdown)\<close>

record md_section =
  heading :: string
  level :: nat
  content :: string

record parse_result =
  sections :: "md_section list"
  codeBlocks :: "string list"
  links :: "string list"

text \<open>The local variables of the parser's loop.\<close>

record parse_state =
  p_sections :: "md_section list"
  p_codeBlocks :: "string list"
  p_links :: "string list"
  currentSection :: "(string \<times> nat) option"
  currentContent :: "string list"
  inCodeBlock :: bool
  currentCodeBlock :: "string list"

definition fence :: string where
  "fence = [bq, bq, bq]"

text \<open>\<open>/\[([^\]]+)\]\(([^)]+)\)/g\<close>\<close>

definition link_re :: re where
  "link_re = seq [Chr CHR ''['', Cap 1 (many1 (none_of [Ch CHR '']''])), Chr CHR '']'',
                  Chr CHR ''('', Cap 2 (many1 (none_of [Ch CHR '')''])), Chr CHR '')'']"

text \<open>\<open>/\(([^)]+)\)/\<close>\<close>

definition url_re :: re where
  "url_re = seq [Chr CHR ''('', Cap 1 (many1 (none_of [Ch CHR '')''])), Chr CHR '')'']"

text \<open>\<open>/^(#{1,6})\s+(.+)$/\<close>\<close>

definition heading_re :: re where
  "heading_re = seq [Bol, Cap 1 (Rep 1 (Some 6) True (Chr CHR ''#'')),
                     many1 (one_of [SpaceCh]), Cap 2 (many1 Dot), Eol]"

definition line_links :: "string \<Rightarrow> string list" where
  "line_links line =
     map (\<lambda>m. case match1 False url_re (whole m) of None \<Rightarrow> [] | Some u \<Rightarrow> grp_str u 1)
         (match_g False link_re line)"

definition close_section :: "parse_state \<Rightarrow> md_section list" where
  "close_section st =
     (case currentSection st of
        None \<Rightarrow> p_sections st
      | Some (h, l) \<Rightarrow>
          p_sections st @ [\<lparr>heading = h, level = l, content = trim (join [nl] (currentContent st))\<rparr>])"

definition parse_line :: "parse_state \<Rightarrow> string \<Rightarrow> parse_state" where
  "parse_line st line =
     (if startsWith (trim line) fence then
        (if inCodeBlock st
         then st\<lparr>p_codeBlocks := p_codeBlocks st @ [join [nl] (currentCodeBlock st)],
                 currentCodeBlock := [], inCodeBlock := False\<rparr>
         else st\<lparr>inCodeBlock := True\<rparr>)
      else if inCodeBlock st then st\<lparr>currentCodeBlock := currentCodeBlock st @ [line]\<rparr>
      else
        let st1 = st\<lparr>p_links := p_links st @ line_links line\<rparr>
        in case match1 False heading_re line of
             Some m \<Rightarrow>
               st1\<lparr>p_sections := close_section st1,
                    currentSection := Some (trim (grp_str m 2), length (grp_str m 1)),
                    currentContent := []\<rparr>
           | None \<Rightarrow>
               (if currentSection st1 \<noteq> None
                then st1\<lparr>currentContent := currentContent st1 @ [line]\<rparr>
                else st1))"

definition parse_init :: parse_state where
  "parse_init = \<lparr>p_sections = [], p_codeBlocks = [], p_links = [], currentSection = None,
                  currentContent = [], inCodeBlock = False, currentCodeBlock = []\<rparr>"

definition parse_finish :: "parse_state \<Rightarrow> parse_result" where
  "parse_finish st = \<lparr>sections = close_section st, codeBlocks = p_codeBlocks st, links = p_links st\<rparr>"

definition parse_lines :: "string list \<Rightarrow> parse_state" where
  "parse_lines ls = foldl parse_line parse_init ls"

definition parseMarkdown :: "string \<Rightarrow> parse_result" where
  "parseMarkdown text = parse_finish (parse_lines (split nl text))"

section \<open>The signature extractor (extract-all-apis)\<close>

record api =
  signature :: string
  description :: string
  category :: string

record extract_result =
  apis :: "api list"
  success :: bool

text \<open>
  A scanning loop \<open>while ((match = r.exec(s)) !== null) { ... }\<close> whose body pushes the
  entries \<open>body match\<close>; \<open>None\<close> when the loop does not return.
\<close>

definition scan :: "bool \<Rightarrow> re \<Rightarrow> string \<Rightarrow> (rmatch \<Rightarrow> api list) \<Rightarrow> api list option" where
  "scan ml r s body = map_option (\<lambda>ms. concat (map body ms)) (exec_all ml r s)"

text \<open>The same when the body runs scanning loops of its own.\<close>

definition scan_nested :: "bool \<Rightarrow> re \<Rightarrow> string \<Rightarrow> (rmatch \<Rightarrow> api list option) \<Rightarrow> api list option" where
  "scan_nested ml r s body =
     (case exec_all ml r s of
        None \<Rightarrow> None
      | Some ms \<Rightarrow> map_option concat (those (map body ms)))"

text \<open>Loops run one after the other, all pushing to the same list.\<close>

definition in_turn :: "api list option list \<Rightarrow> api list option" where
  "in_turn ps = map_option concat (those ps)"

subsection \<open>Character classes used by the patterns\<close>

definition w :: re where
  "w = one_of [WordCh]"

definition ws :: re where
  "ws = one_of [SpaceCh]"

definition digit :: re where
  "digit = one_of [Rng CHR ''0'' CHR ''9'']"

text \<open>\<open>[a-zA-Z_]\<close>\<close>

definition ident_start :: re where
  "ident_start = one_of [Rng CHR ''a'' CHR ''z'', Rng CHR ''A'' CHR ''Z'', Ch CHR ''_'']"

text \<open>
  \<open>[-\<dots>:]\<close>: a hyphen, an en dash, an em dash or a colon. The two dashes are code units
  above 255 and have no counterpart in the model.
\<close>

definition dash :: re where
  "dash = one_of [Ch CHR ''-'', Ch CHR '':'']"

subsection \<open>Markdown and reStructuredText\<close>

text \<open>\<open>/```[\w]*\n([\s\S]*?)```/g\<close>\<close>

definition codeBlockRegex :: re where
  "codeBlockRegex = seq [lit fence, star (one_of [WordCh]), Chr nl,
                         Cap 1 (lazy_star (one_of [SpaceCh, NonSpaceCh])), lit fence]"

text \<open>\<open>/([a-zA-Z_][\w.]*)\s*\([^)]*\)/g\<close>, \<open>/([a-zA-Z_][\w]*)::\w+/g\<close>,
  \<open>/([a-zA-Z_][\w]*)\.\w+/g\<close>\<close>

definition functionPatterns :: "re list" where
  "functionPatterns =
     [seq [Cap 1 (seq [ident_start, star (one_of [WordCh, Ch CHR ''.''])]), star ws,
           Chr CHR ''('', star (none_of [Ch CHR '')'']), Chr CHR '')''],
      seq [Cap 1 (seq [ident_start, star (one_of [WordCh])]), lit ''::'', many1 w],
      seq [Cap 1 (seq [ident_start, star (one_of [WordCh])]), Chr CHR ''.'', many1 w]]"

text \<open>\<open>/`([a-zA-Z_][\w._]*\([^`]*\))`/g\<close>,
  \<open>/`([a-zA-Z_][\w.]*)`\s*[-\<dots>:]\s*([^.\n]{5,50})/g\<close>,
  \<open>/\*\*`([a-zA-Z_][\w._]*\([^`]*\))`\*\*/g\<close>,
  \<open>/`_\.([a-zA-Z_][\w]*)\([^`]*\)`/g\<close>\<close>

definition inlinePatterns :: "re list" where
  "inlinePatterns =
     [seq [Chr bq, Cap 1 (seq [ident_start, star (one_of [WordCh, Ch CHR ''.'', Ch CHR ''_'']),
                               Chr CHR ''('', star (none_of [Ch bq]), Chr CHR '')'']), Chr bq],
      seq [Chr bq, Cap 1 (seq [ident_start, star (one_of [WordCh, Ch CHR ''.''])]), Chr bq,
           star ws, dash, star ws, Cap 2 (Rep 5 (Some 50) True (none_of [Ch CHR ''.'', Ch nl]))],
      seq [lit ''**'', Chr bq,
           Cap 1 (seq [ident_start, star (one_of [WordCh, Ch CHR ''.'', Ch CHR ''_'']),
                       Chr CHR ''('', star (none_of [Ch bq]), Chr CHR '')'']), Chr bq, lit ''**''],
      seq [Chr bq, lit ''_.'', Cap 1 (seq [ident_start, star (one_of [WordCh])]),
           Chr CHR ''('', star (none_of [Ch bq]), Chr CHR '')'', Chr bq]]"

text \<open>\<open>/^[\*\-]\s*`([^`]+)`\s*[-\<dots>:]\s*(.+)$/gm\<close>,
  \<open>/^\d+\.\s*`([^`]+)`\s*[-\<dots>:]\s*(.+)$/gm\<close>,
  \<open>/^[\*\-]\s*\*\*([^*]+)\*\*\s*[-\<dots>:]\s*(.+)$/gm\<close>\<close>

definition listPatterns :: "re list" where
  "listPatterns =
     [seq [Bol, one_of [Ch CHR ''*'', Ch CHR ''-''], star ws, Chr bq,
           Cap 1 (many1 (none_of [Ch bq])), Chr bq, star ws, dash, star ws, Cap 2 (many1 Dot), Eol],
      seq [Bol, many1 digit, Chr CHR ''.'', star ws, Chr bq,
           Cap 1 (many1 (none_of [Ch bq])), Chr bq, star ws, dash, star ws, Cap 2 (many1 Dot), Eol],
      seq [Bol, one_of [Ch CHR ''*'', Ch CHR ''-''], star ws, lit ''**'',
           Cap 1 (many1 (none_of [Ch CHR ''*''])), lit ''**'', star ws, dash, star ws,
           Cap 2 (many1 Dot), Eol]]"

text \<open>\<open>/\|\s*`?([^|`]+)`?\s*\|([^|]*)\|/g\<close>\<close>

definition tableRowRegex :: re where
  "tableRowRegex = seq [Chr CHR ''|'', star ws, opt (Chr bq),
                        Cap 1 (many1 (none_of [Ch CHR ''|'', Ch bq])), opt (Chr bq), star ws,
                        Chr CHR ''|'', Cap 2 (star (none_of [Ch CHR ''|''])), Chr CHR ''|'']"

text \<open>\<open>/^#{2,4}\s+`?([a-zA-Z_][\w.()]*)`?$/gm\<close>\<close>

definition headerRegex :: re where
  "headerRegex = seq [Bol, Rep 2 (Some 4) True (Chr CHR ''#''), many1 ws, opt (Chr bq),
                      Cap 1 (seq [ident_start, star (one_of [WordCh, Ch CHR ''.'', Ch CHR ''('', Ch CHR '')''])]),
                      opt (Chr bq), Eol]"

definition or_default :: "string \<Rightarrow> string \<Rightarrow> string" where
  "or_default s d = (if s = [] then d else s)"

definition code_block_apis :: "string \<Rightarrow> api list option" where
  "code_block_apis codeBlock =
     in_turn (map (\<lambda>pattern. scan False pattern codeBlock (\<lambda>funcMatch.
        let sig = trim (whole funcMatch)
        in if sig \<noteq> [] \<and> \<not> startsWith sig ''//'' \<and> \<not> startsWith sig ''#''
           then [\<lparr>signature = sig, description = ''Extracted from code block'',
                   category = ''code-block''\<rparr>]
           else [])) functionPatterns)"

definition inline_apis :: "string \<Rightarrow> api list option" where
  "inline_apis text =
     in_turn (map (\<lambda>pattern. scan False pattern text (\<lambda>m.
        let sig = grp_str m 1; descr = grp_or m 2 ''API method''
        in if (sig \<noteq> [] \<and> \<not> str_includes sig '' '') \<or> str_includes sig ''(''
           then [\<lparr>signature = sig, description = trim descr, category = ''inline''\<rparr>]
           else [])) inlinePatterns)"

definition list_apis :: "string \<Rightarrow> api list option" where
  "list_apis text =
     in_turn (map (\<lambda>pattern. scan True pattern text (\<lambda>m.
        [\<lparr>signature = trim (grp_str m 1),
          description = or_default (trim (grp_str m 2)) ''API method'',
          category = ''list''\<rparr>])) listPatterns)"

definition table_apis :: "string \<Rightarrow> api list option" where
  "table_apis text =
     scan False tableRowRegex text (\<lambda>m.
        let sig = trim (grp_str m 1); descr = trim (grp_str m 2)
        in if sig \<noteq> [] \<and> (str_includes sig ''('' \<or> str_includes sig ''.'' \<or> str_includes sig ''::'')
           then [\<lparr>signature = sig, description = or_default descr ''API method'',
                   category = ''table''\<rparr>]
           else [])"

definition header_apis :: "string \<Rightarrow> api list option" where
  "header_apis text =
     scan True headerRegex text (\<lambda>m.
        let sig = trim (grp_str m 1)
        in if sig \<noteq> [] \<and> (str_includes sig ''('' \<or> str_includes sig ''.'')
           then [\<lparr>signature = sig, description = ''API section'', category = ''header''\<rparr>]
           else [])"

definition markdown_apis :: "string \<Rightarrow> api list option" where
  "markdown_apis text =
     in_turn [scan_nested False codeBlockRegex text (\<lambda>m. code_block_apis (grp_str m 1)),
              inline_apis text, list_apis text, table_apis text, header_apis text]"

subsection \<open>Typed declarations\<close>

fun alts :: "re list \<Rightarrow> re" where
  "alts [] = Cls False []"
| "alts [r] = r"
| "alts (r # rs) = Alt r (alts rs)"

text \<open>\<open>keyword\s+\<close>\<close>

definition kw :: "string \<Rightarrow> re" where
  "kw s = seq [lit s, many1 ws]"

text \<open>\<open>[a-zA-Z_$][a-zA-Z0-9_$]*\<close>\<close>

definition js_ident :: re where
  "js_ident = seq [one_of [Rng CHR ''a'' CHR ''z'', Rng CHR ''A'' CHR ''Z'', Ch CHR ''_'', Ch CHR ''$''],
                   star (one_of [Rng CHR ''a'' CHR ''z'', Rng CHR ''A'' CHR ''Z'',
                                 Rng CHR ''0'' CHR ''9'', Ch CHR ''_'', Ch CHR ''$''])]"

text \<open>\<open>\(([^)]*)\)\<close> with the capture group numbered \<open>n\<close>\<close>

definition params :: "nat \<Rightarrow> re" where
  "params n = seq [Chr CHR ''('', Cap n (star (none_of [Ch CHR '')''])), Chr CHR '')'']"

text \<open>\<open>/export\s+(?:declare\s+)?(?:function|const|let|var|class|interface|type|enum)\s+([a-zA-Z_$][a-zA-Z0-9_$]*)/g\<close>\<close>

definition ts_exportRegex :: re where
  "ts_exportRegex = seq [kw ''export'', opt (kw ''declare''),
      alts (map lit [''function'', ''const'', ''let'', ''var'', ''class'', ''interface'', ''type'', ''enum'']),
      many1 ws, Cap 1 js_ident]"

text \<open>\<open>/(?:export\s+)?(?:function\s+)?([a-zA-Z_$][a-zA-Z0-9_$]*)\s*(<[^>]*>)?\s*\(([^)]*)\)\s*:\s*([^;{]+)/g\<close>\<close>

definition ts_methodRegex :: re where
  "ts_methodRegex = seq [opt (kw ''export''), opt (kw ''function''), Cap 1 js_ident, star ws,
      opt (Cap 2 (seq [Chr CHR ''<'', star (none_of [Ch CHR ''>'']), Chr CHR ''>''])), star ws,
      params 3, star ws, Chr CHR '':'', star ws, Cap 4 (many1 (none_of [Ch CHR '';'', Ch CHR ''{'']))]"

text \<open>\<open>/([a-zA-Z_$][a-zA-Z0-9_$]*)\s*:\s*\(([^)]*)\)\s*=>\s*([^;,}]+)/g\<close>\<close>

definition ts_propertyRegex :: re where
  "ts_propertyRegex = seq [Cap 1 js_ident, star ws, Chr CHR '':'', star ws, params 2, star ws,
      lit ''=>'', star ws, Cap 3 (many1 (none_of [Ch CHR '';'', Ch CHR '','', Ch CHR ''}'']))]"

text \<open>The export loop looks at everything pushed so far, its own entries included.\<close>

definition ts_push_export :: "api list \<Rightarrow> rmatch \<Rightarrow> api list" where
  "ts_push_export acc m =
     (let name = grp_str m 1
      in if list_ex (\<lambda>a. str_includes (signature a) name) acc then acc
         else acc @ [\<lparr>signature = name, description = ''Exported entity'', category = ''export''\<rparr>])"

definition ts_apis :: "string \<Rightarrow> api list option" where
  "ts_apis text =
     (case in_turn
        [scan False ts_methodRegex text (\<lambda>m.
           [\<lparr>signature = grp_str m 1 @ grp_or m 2 [] @ ''('' @ grp_str m 3 @ '')'',
             description = ''Returns '' @ trim (grp_str m 4), category = ''function''\<rparr>]),
         scan False ts_propertyRegex text (\<lambda>m.
           [\<lparr>signature = grp_str m 1 @ ''('' @ grp_str m 2 @ '')'',
             description = ''Returns '' @ trim (grp_str m 3), category = ''method''\<rparr>])] of
        None \<Rightarrow> None
      | Some acc \<Rightarrow> map_option (foldl ts_push_export acc) (exec_all False ts_exportRegex text))"

subsection \<open>Script source\<close>

text \<open>\<open>/(?:export\s+)?(?:async\s+)?function\s+([a-zA-Z_$][a-zA-Z0-9_$]*)\s*\(([^)]*)\)/g\<close>\<close>

definition js_functionRegex :: re where
  "js_functionRegex = seq [opt (kw ''export''), opt (kw ''async''), kw ''function'', Cap 1 js_ident,
                           star ws, params 2]"

text \<open>\<open>/(?:export\s+)?(?:const|let|var)\s+([a-zA-Z_$][a-zA-Z0-9_$]*)\s*=\s*(?:async\s+)?\(([^)]*)\)\s*=>/g\<close>\<close>

definition js_arrowRegex :: re where
  "js_arrowRegex = seq [opt (kw ''export''), alts (map lit [''const'', ''let'', ''var'']), many1 ws,
                        Cap 1 js_ident, star ws, Chr CHR ''='', star ws, opt (kw ''async''),
                        params 2, star ws, lit ''=>'']"

text \<open>\<open>/([a-zA-Z_$][a-zA-Z0-9_$]*)\s*:\s*(?:async\s+)?function\s*\(([^)]*)\)/g\<close>\<close>

definition js_methodRegex :: re where
  "js_methodRegex = seq [Cap 1 js_ident, star ws, Chr CHR '':'', star ws, opt (kw ''async''),
                         lit ''function'', star ws, params 2]"

text \<open>\<open>/(?:static\s+)?(?:async\s+)?([a-zA-Z_$][a-zA-Z0-9_$]*)\s*\(([^)]*)\)\s*{/g\<close>\<close>

definition js_classMethodRegex :: re where
  "js_classMethodRegex = seq [opt (kw ''static''), opt (kw ''async''), Cap 1 js_ident, star ws,
                              params 2, star ws, Chr CHR ''{'']"

definition call_sig :: "rmatch \<Rightarrow> string" where
  "call_sig m = grp_str m 1 @ ''('' @ grp_str m 2 @ '')''"

definition js_apis :: "string \<Rightarrow> api list option" where
  "js_apis text =
     in_turn
       [scan False js_functionRegex text (\<lambda>m.
          [\<lparr>signature = call_sig m, description = ''Function'', category = ''function''\<rparr>]),
        scan False js_arrowRegex text (\<lambda>m.
          [\<lparr>signature = call_sig m, description = ''Arrow function'', category = ''function''\<rparr>]),
        scan False js_methodRegex text (\<lambda>m.
          [\<lparr>signature = call_sig m, description = ''Method'', category = ''method''\<rparr>]),
        scan False js_classMethodRegex text (\<lambda>m.
          if grp_str m 1 \<in> set [''constructor'', ''if'', ''for'', ''while'', ''switch''] then []
          else [\<lparr>signature = call_sig m, description = ''Class method'', category = ''method''\<rparr>])]"

subsection \<open>Python\<close>

text \<open>\<open>/^class\s+(\w+)(?:\([^)]*\))?:/gm\<close>\<close>

definition py_classRegex :: re where
  "py_classRegex = seq [Bol, kw ''class'', Cap 1 (many1 w),
                        opt (seq [Chr CHR ''('', star (none_of [Ch CHR '')'']), Chr CHR '')'']),
                        Chr CHR '':'']"

text \<open>\<open>/^(?:async\s+)?def\s+(\w+)\s*\(([^)]*)\)(?:\s*->\s*([^:]+))?:/gm\<close>\<close>

definition py_functionRegex :: re where
  "py_functionRegex = seq [Bol, opt (kw ''async''), kw ''def'', Cap 1 (many1 w), star ws, params 2,
                           opt (seq [star ws, lit ''->'', star ws, Cap 3 (many1 (none_of [Ch CHR '':'']))]),
                           Chr CHR '':'']"

text \<open>\<open>/^@(\w+)(?:\.\w+)*(?:\([^)]*\))?/gm\<close>\<close>

definition py_decoratorRegex :: re where
  "py_decoratorRegex = seq [Bol, Chr CHR ''@'', Cap 1 (many1 w), star (seq [Chr CHR ''.'', many1 w]),
                            opt (seq [Chr CHR ''('', star (none_of [Ch CHR '')'']), Chr CHR '')''])]"

definition py_apis :: "string \<Rightarrow> api list option" where
  "py_apis text =
     in_turn
       [scan True py_classRegex text (\<lambda>m.
          [\<lparr>signature = ''class '' @ grp_str m 1, description = ''Python class'', category = ''class''\<rparr>]),
        scan True py_functionRegex text (\<lambda>m.
          let returnType = grp_or m 3 []
          in [\<lparr>signature = ''def '' @ grp_str m 1 @ ''('' @ grp_str m 2 @ '')''
                   @ (if returnType \<noteq> [] then '' -> '' @ returnType else []),
               description = ''Python function'', category = ''function''\<rparr>]),
        scan True py_decoratorRegex text (\<lambda>m.
          [\<lparr>signature = ''@'' @ grp_str m 1, description = ''Python decorator'', category = ''decorator''\<rparr>])]"

subsection \<open>Java\<close>

text \<open>\<open>(?:public|private|protected)?\s*\<close>\<close>

definition java_visibility :: re where
  "java_visibility = seq [opt (alts (map lit [''public'', ''private'', ''protected''])), star ws]"

text \<open>\<open>/(?:public|private|protected)?\s*(?:static\s+)?(?:final\s+)?class\s+(\w+)/g\<close>\<close>

definition java_classRegex :: re where
  "java_classRegex = seq [java_visibility, opt (kw ''static''), opt (kw ''final''), kw ''class'',
                          Cap 1 (many1 w)]"

text \<open>\<open>/(?:public|private|protected)?\s*interface\s+(\w+)/g\<close>\<close>

definition java_interfaceRegex :: re where
  "java_interfaceRegex = seq [java_visibility, kw ''interface'', Cap 1 (many1 w)]"

text \<open>\<open>/(?:public|private|protected)?\s*(?:static\s+)?(?:final\s+)?(?:[\w<>\[\]]+)\s+(\w+)\s*\(([^)]*)\)/g\<close>\<close>

definition java_methodRegex :: re where
  "java_methodRegex = seq [java_visibility, opt (kw ''static''), opt (kw ''final''),
      many1 (one_of [WordCh, Ch CHR ''<'', Ch CHR ''>'', Ch CHR ''['', Ch CHR '']'']), many1 ws,
      Cap 1 (many1 w), star ws, params 2]"

definition control_words :: "string list" where
  "control_words = [''if'', ''for'', ''while'', ''switch'', ''catch'']"

definition java_apis :: "string \<Rightarrow> api list option" where
  "java_apis text =
     in_turn
       [scan False java_classRegex text (\<lambda>m.
          [\<lparr>signature = ''class '' @ grp_str m 1, description = ''Java class'', category = ''class''\<rparr>]),
        scan False java_interfaceRegex text (\<lambda>m.
          [\<lparr>signature = ''interface '' @ grp_str m 1, description = ''Java interface'',
            category = ''interface''\<rparr>]),
        scan False java_methodRegex text (\<lambda>m.
          if grp_str m 1 \<in> set control_words then []
          else [\<lparr>signature = call_sig m, description = ''Java method'', category = ''method''\<rparr>])]"

subsection \<open>Rust\<close>

text \<open>\<open>/pub\s+struct\s+(\w+)/g\<close>, \<open>/pub\s+enum\s+(\w+)/g\<close>, \<open>/pub\s+trait\s+(\w+)/g\<close>\<close>

definition rust_itemRegex :: "string \<Rightarrow> re" where
  "rust_itemRegex item = seq [kw ''pub'', kw item, Cap 1 (many1 w)]"

text \<open>\<open>/pub\s+(?:async\s+)?fn\s+(\w+)\s*(?:<[^>]+>)?\s*\(([^)]*)\)(?:\s*->\s*([^{]+))?/g\<close>\<close>

definition rust_fnRegex :: re where
  "rust_fnRegex = seq [kw ''pub'', opt (kw ''async''), kw ''fn'', Cap 1 (many1 w), star ws,
      opt (seq [Chr CHR ''<'', many1 (none_of [Ch CHR ''>'']), Chr CHR ''>'']), star ws, params 2,
      opt (seq [star ws, lit ''->'', star ws, Cap 3 (many1 (none_of [Ch CHR ''{'']))])]"

definition rust_apis :: "string \<Rightarrow> api list option" where
  "rust_apis text =
     in_turn
       [scan False (rust_itemRegex ''struct'') text (\<lambda>m.
          [\<lparr>signature = ''struct '' @ grp_str m 1, description = ''Rust struct'', category = ''struct''\<rparr>]),
        scan False (rust_itemRegex ''enum'') text (\<lambda>m.
          [\<lparr>signature = ''enum '' @ grp_str m 1, description = ''Rust enum'', category = ''enum''\<rparr>]),
        scan False rust_fnRegex text (\<lambda>m.
          let returnType = grp_or m 3 []
          in [\<lparr>signature = ''fn '' @ grp_str m 1 @ ''('' @ grp_str m 2 @ '')''
                   @ (if returnType \<noteq> [] then '' -> '' @ trim returnType else []),
               description = ''Rust function'', category = ''function''\<rparr>]),
        scan False (rust_itemRegex ''trait'') text (\<lambda>m.
          [\<lparr>signature = ''trait '' @ grp_str m 1, description = ''Rust trait'', category = ''trait''\<rparr>])]"

subsection \<open>Go\<close>

text \<open>\<open>/func\s+(?:\([^)]*\)\s+)?(\w+)\s*\(([^)]*)\)(?:\s*(?:\([^)]*\)|[^{]+))?/g\<close>\<close>

definition go_funcRegex :: re where
  "go_funcRegex = seq [kw ''func'',
      opt (seq [Chr CHR ''('', star (none_of [Ch CHR '')'']), Chr CHR '')'', many1 ws]),
      Cap 1 (many1 w), star ws, params 2,
      opt (seq [star ws, Alt (seq [Chr CHR ''('', star (none_of [Ch CHR '')'']), Chr CHR '')''])
                             (many1 (none_of [Ch CHR ''{'']))])]"

text \<open>\<open>/type\s+(\w+)\s+(?:struct|interface|\w+)/g\<close>\<close>

definition go_typeRegex :: re where
  "go_typeRegex = seq [kw ''type'', Cap 1 (many1 w), many1 ws,
                       alts [lit ''struct'', lit ''interface'', many1 w]]"

definition go_apis :: "string \<Rightarrow> api list option" where
  "go_apis text =
     in_turn
       [scan False go_funcRegex text (\<lambda>m.
          [\<lparr>signature = ''func '' @ call_sig m, description = ''Go function'', category = ''function''\<rparr>]),
        scan False go_typeRegex text (\<lambda>m.
          [\<lparr>signature = ''type '' @ grp_str m 1, description = ''Go type'', category = ''type''\<rparr>])]"

subsection \<open>Ruby\<close>

text \<open>\<open>/class\s+(\w+)(?:\s*<\s*\w+)?/g\<close>\<close>

definition rb_classRegex :: re where
  "rb_classRegex = seq [kw ''class'', Cap 1 (many1 w),
                        opt (seq [star ws, Chr CHR ''<'', star ws, many1 w])]"

text \<open>\<open>/module\s+(\w+)/g\<close>\<close>

definition rb_moduleRegex :: re where
  "rb_moduleRegex = seq [kw ''module'', Cap 1 (many1 w)]"

text \<open>\<open>/def\s+(?:self\.)?(\w+)(?:\(([^)]*)\))?/g\<close>\<close>

definition rb_methodRegex :: re where
  "rb_methodRegex = seq [kw ''def'', opt (lit ''self.''), Cap 1 (many1 w), opt (params 2)]"

definition rb_apis :: "string \<Rightarrow> api list option" where
  "rb_apis text =
     in_turn
       [scan False rb_classRegex text (\<lambda>m.
          [\<lparr>signature = ''class '' @ grp_str m 1, description = ''Ruby class'', category = ''class''\<rparr>]),
        scan False rb_moduleRegex text (\<lambda>m.
          [\<lparr>signature = ''module '' @ grp_str m 1, description = ''Ruby module'', category = ''module''\<rparr>]),
        scan False rb_methodRegex text (\<lambda>m.
          let ps = grp_or m 2 []
          in [\<lparr>signature = ''def '' @ grp_str m 1 @ (if ps \<noteq> [] then ''('' @ ps @ '')'' else []),
               description = ''Ruby method'', category = ''method''\<rparr>])]"

subsection \<open>C++\<close>

text \<open>\<open>/class\s+(\w+)/g\<close>, \<open>/struct\s+(\w+)/g\<close>\<close>

definition cpp_itemRegex :: "string \<Rightarrow> re" where
  "cpp_itemRegex item = seq [kw item, Cap 1 (many1 w)]"

text \<open>\<open>/template\s*<[^>]+>\s*(?:class|struct)\s+(\w+)/g\<close>\<close>

definition cpp_templateRegex :: re where
  "cpp_templateRegex = seq [lit ''template'', star ws, Chr CHR ''<'', many1 (none_of [Ch CHR ''>'']),
      Chr CHR ''>'', star ws, Alt (lit ''class'') (lit ''struct''), many1 ws, Cap 1 (many1 w)]"

definition cpp_apis :: "string \<Rightarrow> api list option" where
  "cpp_apis text =
     in_turn
       [scan False (cpp_itemRegex ''class'') text (\<lambda>m.
          [\<lparr>signature = ''class '' @ grp_str m 1, description = ''C++ class'', category = ''class''\<rparr>]),
        scan False (cpp_itemRegex ''struct'') text (\<lambda>m.
          [\<lparr>signature = ''struct '' @ grp_str m 1, description = ''C++ struct'', category = ''struct''\<rparr>]),
        scan False cpp_templateRegex text (\<lambda>m.
          [\<lparr>signature = ''template '' @ grp_str m 1, description = ''C++ template'',
            category = ''template''\<rparr>])]"

subsection \<open>C#\<close>

text \<open>\<open>(?:public|private|protected|internal)?\s*\<close>\<close>

definition cs_visibility :: re where
  "cs_visibility = seq [opt (alts (map lit [''public'', ''private'', ''protected'', ''internal''])), star ws]"

text \<open>\<open>/(?:public|private|protected|internal)?\s*(?:static\s+)?(?:partial\s+)?class\s+(\w+)/g\<close>\<close>

definition cs_classRegex :: re where
  "cs_classRegex = seq [cs_visibility, opt (kw ''static''), opt (kw ''partial''), kw ''class'',
                        Cap 1 (many1 w)]"

text \<open>\<open>/(?:public|private|protected|internal)?\s*interface\s+(\w+)/g\<close>\<close>

definition cs_interfaceRegex :: re where
  "cs_interfaceRegex = seq [cs_visibility, kw ''interface'', Cap 1 (many1 w)]"

text \<open>\<open>/(?:public|private|protected|internal)?\s*(?:static\s+)?(?:async\s+)?(?:[\w<>\[\]?]+)\s+(\w+)\s*\(([^)]*)\)/g\<close>\<close>

definition cs_methodRegex :: re where
  "cs_methodRegex = seq [cs_visibility, opt (kw ''static''), opt (kw ''async''),
      many1 (one_of [WordCh, Ch CHR ''<'', Ch CHR ''>'', Ch CHR ''['', Ch CHR '']'', Ch CHR ''?'']),
      many1 ws, Cap 1 (many1 w), star ws, params 2]"

definition cs_apis :: "string \<Rightarrow> api list option" where
  "cs_apis text =
     in_turn
       [scan False cs_classRegex text (\<lambda>m.
          [\<lparr>signature = ''class '' @ grp_str m 1, description = ''C# class'', category = ''class''\<rparr>]),
        scan False cs_interfaceRegex text (\<lambda>m.
          [\<lparr>signature = ''interface '' @ grp_str m 1, description = ''C# interface'',
            category = ''interface''\<rparr>]),
        scan False cs_methodRegex text (\<lambda>m.
          if grp_str m 1 \<in> set control_words then []
          else [\<lparr>signature = call_sig m, description = ''C# method'', category = ''method''\<rparr>])]"

subsection \<open>PHP\<close>

text \<open>\<open>/class\s+(\w+)(?:\s+extends\s+\w+)?(?:\s+implements\s+[\w,\s]+)?/g\<close>\<close>

definition php_classRegex :: re where
  "php_classRegex = seq [kw ''class'', Cap 1 (many1 w),
      opt (seq [many1 ws, kw ''extends'', many1 w]),
      opt (seq [many1 ws, kw ''implements'', many1 (one_of [WordCh, Ch CHR '','', SpaceCh])])]"

text \<open>\<open>/(?:public|private|protected)?\s*(?:static\s+)?function\s+(\w+)\s*\(([^)]*)\)/g\<close>\<close>

definition php_functionRegex :: re where
  "php_functionRegex = seq [java_visibility, opt (kw ''static''), kw ''function'', Cap 1 (many1 w),
                            star ws, params 2]"

definition php_apis :: "string \<Rightarrow> api list option" where
  "php_apis text =
     in_turn
       [scan False php_classRegex text (\<lambda>m.
          [\<lparr>signature = ''class '' @ grp_str m 1, description = ''PHP class'', category = ''class''\<rparr>]),
        scan False php_functionRegex text (\<lambda>m.
          [\<lparr>signature = ''function '' @ call_sig m, description = ''PHP function'',
            category = ''function''\<rparr>])]"

subsection \<open>JSON values\<close>

text \<open>
  \<open>JSON.parse\<close> and the values it returns. An object is its list of properties in the
  host's property order. A number is kept as it is written, and \<open>json_number\<close> gives
  the double it is read as. An escape \<open>\uXXXX\<close> that denotes a code unit above 255 is
  outside the model: the parser below refuses it.
\<close>

datatype json =
    JNull
  | JBool bool
  | JNum string
  | JStr string
  | JArr "json list"
  | JObj "(string \<times> json) list"

definition json_ws :: "char \<Rightarrow> bool" where
  "json_ws c = (c = CHR 0x20 \<or> c = CHR 0x09 \<or> c = CHR 0x0A \<or> c = CHR 0x0D)"

definition skip_ws :: "string \<Rightarrow> string" where
  "skip_ws s = dropWhile json_ws s"

definition hex_val :: "char \<Rightarrow> nat option" where
  "hex_val c =
     (if in_range CHR ''0'' CHR ''9'' c then Some (of_char c - 48)
      else if in_range CHR ''a'' CHR ''f'' c then Some (of_char c - 87)
      else if in_range CHR ''A'' CHR ''F'' c then Some (of_char c - 55)
      else None)"

definition hex4 :: "char \<Rightarrow> char \<Rightarrow> char \<Rightarrow> char \<Rightarrow> nat option" where
  "hex4 a b c d =
     (case (hex_val a, hex_val b, hex_val c, hex_val d) of
        (Some x, Some y, Some z, Some u) \<Rightarrow> Some (4096 * x + 256 * y + 16 * z + u)
      | _ \<Rightarrow> None)"

definition unescape :: "char \<Rightarrow> char option" where
  "unescape e =
     (if e = CHR 0x22 \<or> e = CHR 0x5C \<or> e = CHR ''/'' then Some e
      else if e = CHR ''b'' then Some (CHR 0x08)
      else if e = CHR ''f'' then Some (CHR 0x0C)
      else if e = CHR ''n'' then Some (CHR 0x0A)
      else if e = CHR ''r'' then Some (CHR 0x0D)
      else if e = CHR ''t'' then Some (CHR 0x09)
      else None)"

definition push_char :: "char \<Rightarrow> (string \<times> string) option \<Rightarrow> (string \<times> string) option" where
  "push_char c r = map_option (\<lambda>(str, rest). (c # str, rest)) r"

text \<open>The characters of a string literal after its opening quote, and what follows it.\<close>

fun lex_chars :: "string \<Rightarrow> (string \<times> string) option" where
  "lex_chars [] = None"
| "lex_chars (c # r) =
     (if c = CHR 0x22 then Some ([], r)
      else if c = CHR 0x5C then
        (case r of
           [] \<Rightarrow> None
         | e # r1 \<Rightarrow>
             if e = CHR ''u'' then
               (case r1 of
                  h1 # h2 # h3 # h4 # r2 \<Rightarrow>
                    (case hex4 h1 h2 h3 h4 of
                       None \<Rightarrow> None
                     | Some n \<Rightarrow> if n < 256 then push_char (char_of n) (lex_chars r2) else None)
                | _ \<Rightarrow> None)
             else (case unescape e of None \<Rightarrow> None | Some x \<Rightarrow> push_char x (lex_chars r1)))
      else if (of_char c :: nat) < 32 then None
      else push_char c (lex_chars r))"

text \<open>\<open>-?(0|[1-9][0-9]*)(\.[0-9]+)?([eE][+-]?[0-9]+)?\<close>\<close>

definition number_re :: re where
  "number_re = seq [opt (Chr CHR ''-''),
                    Alt (Chr CHR ''0'') (seq [one_of [Rng CHR ''1'' CHR ''9''], star digit]),
                    opt (seq [Chr CHR ''.'', many1 digit]),
                    opt (seq [one_of [Ch CHR ''e'', Ch CHR ''E''],
                              opt (one_of [Ch CHR ''+'', Ch CHR ''-'']), many1 digit])]"

definition lex_number :: "string \<Rightarrow> (string \<times> string) option" where
  "lex_number s =
     (case mt False number_re \<lparr>prev = None, rest = s, caps = []\<rparr> of
        [] \<Rightarrow> None
      | t # _ \<Rightarrow> Some (take (length s - length (rest t)) s, rest t))"

definition nat_of_dec :: "string \<Rightarrow> nat" where
  "nat_of_dec s = foldl (\<lambda>n c. 10 * n + (of_char c - 48)) 0 s"

text \<open>A key that is an array index, \<open>0\<close> to \<open>2^32 - 2\<close> in its canonical spelling.\<close>

definition is_index :: "string \<Rightarrow> bool" where
  "is_index k =
     (k = ''0'' \<or>
      (case k of
         [] \<Rightarrow> False
       | c # cs \<Rightarrow> in_range CHR ''1'' CHR ''9'' c \<and> list_all (in_range CHR ''0'' CHR ''9'') cs
                    \<and> length k \<le> 10 \<and> nat_of_dec k \<le> 4294967294))"

text \<open>Storing a property: a key met again keeps its place and takes the new value.\<close>

fun obj_set :: "(string \<times> json) list \<Rightarrow> string \<Rightarrow> json \<Rightarrow> (string \<times> json) list" where
  "obj_set [] k v = [(k, v)]"
| "obj_set ((k', v') # kvs) k v = (if k' = k then (k, v) # kvs else (k', v') # obj_set kvs k v)"

text \<open>The host's property order: array indices in ascending order, then the other keys
  in the order of their creation.\<close>

definition property_order :: "(string \<times> json) list \<Rightarrow> (string \<times> json) list" where
  "property_order kvs =
     sort_key (\<lambda>kv. nat_of_dec (fst kv)) (filter (\<lambda>kv. is_index (fst kv)) kvs)
       @ filter (\<lambda>kv. \<not> is_index (fst kv)) kvs"

text \<open>
  The parser proper. A value, the elements of an array after its opening bracket, and the
  members of an object after its opening brace; each returns what it read and the text
  after it. The comparisons of lengths hold always (a value is at least one character
  long); they are what makes the recursion well-founded.
\<close>

function parse_value :: "string \<Rightarrow> (json \<times> string) option"
  and parse_elems :: "json list \<Rightarrow> string \<Rightarrow> (json \<times> string) option"
  and parse_members :: "(string \<times> json) list \<Rightarrow> string \<Rightarrow> (json \<times> string) option"
where
  "parse_value s =
     (case skip_ws s of
        [] \<Rightarrow> None
      | c # r \<Rightarrow>
          if c = CHR ''{'' then
            (case skip_ws r of
               [] \<Rightarrow> None
             | d # r' \<Rightarrow> if d = CHR ''}'' then Some (JObj [], r') else parse_members [] r)
          else if c = CHR ''['' then
            (case skip_ws r of
               [] \<Rightarrow> None
             | d # r' \<Rightarrow> if d = CHR '']'' then Some (JArr [], r') else parse_elems [] r)
          else if c = CHR 0x22 then map_option (\<lambda>(str, r'). (JStr str, r')) (lex_chars r)
          else if startsWith (c # r) ''true'' then Some (JBool True, drop 4 (c # r))
          else if startsWith (c # r) ''false'' then Some (JBool False, drop 5 (c # r))
          else if startsWith (c # r) ''null'' then Some (JNull, drop 4 (c # r))
          else map_option (\<lambda>(lexeme, r'). (JNum lexeme, r')) (lex_number (c # r)))"
| "parse_elems acc s =
     (case parse_value s of
        None \<Rightarrow> None
      | Some (v, r) \<Rightarrow>
          if length r < length s then
            (case skip_ws r of
               [] \<Rightarrow> None
             | d # r' \<Rightarrow>
                 if d = CHR '','' then parse_elems (acc @ [v]) r'
                 else if d = CHR '']'' then Some (JArr (acc @ [v]), r')
                 else None)
          else None)"
| "parse_members acc s =
     (case skip_ws s of
        [] \<Rightarrow> None
      | q # r \<Rightarrow>
          if q = CHR 0x22 then
            (case lex_chars r of
               None \<Rightarrow> None
             | Some (k, r1) \<Rightarrow>
                 (case skip_ws r1 of
                    [] \<Rightarrow> None
                  | d # r2 \<Rightarrow>
                      if d = CHR '':'' \<and> length r2 < length s then
                        (case parse_value r2 of
                           None \<Rightarrow> None
                         | Some (v, r3) \<Rightarrow>
                             if length r3 < length r2 then
                               (case skip_ws r3 of
                                  [] \<Rightarrow> None
                                | e # r4 \<Rightarrow>
                                    if e = CHR '','' then parse_members (obj_set acc k v) r4
                                    else if e = CHR ''}'' then
                                      Some (JObj (property_order (obj_set acc k v)), r4)
                                    else None)
                             else None)
                      else None))
          else None)"
  by pat_completeness auto
termination
proof (relation "measure (\<lambda>x. case x of
          Inl s \<Rightarrow> 2 * length s
        | Inr (Inl (acc, s)) \<Rightarrow> 2 * length s + 1
        | Inr (Inr (acc, s)) \<Rightarrow> 2 * length s + 1)", goal_cases)
  case 1
  show ?case by simp
next
  case (2 s c r d r')
  have "length (skip_ws s) \<le> length s"
    by (simp add: skip_ws_def length_dropWhile_le)
  with 2 show ?case by simp
next
  case (3 s c r d r')
  have "length (skip_ws s) \<le> length s"
    by (simp add: skip_ws_def length_dropWhile_le)
  with 3 show ?case by simp
next
  case (4 acc s)
  show ?case by simp
next
  case (5 acc s x v r d r')
  have "length (skip_ws r) \<le> length r"
    by (simp add: skip_ws_def length_dropWhile_le)
  with 5 show ?case by simp
next
  case (6 acc s q r x k r1 d r2)
  then show ?case by simp
next
  case (7 acc s q r x k r1 d r2 y v r3 e r4)
  have "length (skip_ws r3) \<le> length r3"
    by (simp add: skip_ws_def length_dropWhile_le)
  with 7 show ?case by simp
qed

declare parse_value.simps [simp del] parse_elems.simps [simp del] parse_members.simps [simp del]

definition JSON_parse :: "string \<Rightarrow> json option" where
  "JSON_parse s =
     (case parse_value s of
        None \<Rightarrow> None
      | Some (v, r) \<Rightarrow> if skip_ws r = [] then Some v else None)"

text \<open>Property access \<open>v.k\<close> for a key that no prototype defines; \<open>None\<close> is \<open>undefined\<close>.\<close>

fun get_prop :: "json \<Rightarrow> string \<Rightarrow> json option" where
  "get_prop (JObj kvs) k = map_of kvs k"
| "get_prop v k = None"

text \<open>Truthiness. A number is falsy when the double it is read as is zero (a JSON number
  is never \<open>NaN\<close>).\<close>

fun truthy :: "json \<Rightarrow> bool" where
  "truthy JNull = False"
| "truthy (JBool b) = b"
| "truthy (JNum l) = (json_number l \<noteq> Finite 0)"
| "truthy (JStr s) = (s \<noteq> [])"
| "truthy (JArr vs) = True"
| "truthy (JObj kvs) = True"

definition truthy_opt :: "json option \<Rightarrow> bool" where
  "truthy_opt v = (case v of None \<Rightarrow> False | Some x \<Rightarrow> truthy x)"

text \<open>\<open>a || b\<close>\<close>

definition js_or :: "json option \<Rightarrow> json option \<Rightarrow> json option" where
  "js_or a b = (if truthy_opt a then a else b)"

text \<open>
  The text a value gives inside a template literal, \<open>None\<close> when the conversion raises a
  \<open>TypeError\<close>. An array gives the texts of its elements joined by commas, \<open>null\<close> among
  them giving the empty text. An object gives \<open>[object Object]\<close>, unless it has a member
  \<open>toString\<close> of its own: that member, a JSON value, cannot be called, and the conversion
  finds no other way to a text.
\<close>

fun display :: "json \<Rightarrow> string option"
  and display_elems :: "json list \<Rightarrow> string list option"
where
  "display JNull = Some ''null''"
| "display (JBool b) = Some (if b then ''true'' else ''false'')"
| "display (JNum l) = Some (number_text (json_number l))"
| "display (JStr s) = Some s"
| "display (JArr vs) = map_option (join '','') (display_elems vs)"
| "display (JObj kvs) = (if map_of kvs ''toString'' = None then Some ''[object Object]'' else None)"
| "display_elems [] = Some []"
| "display_elems (v # vs) =
     (case (if v = JNull then Some [] else display v) of
        None \<Rightarrow> None
      | Some t \<Rightarrow> map_option (Cons t) (display_elems vs))"

text \<open>The same for a value that may be \<open>undefined\<close> (\<open>None\<close>).\<close>

definition display_opt :: "json option \<Rightarrow> string option" where
  "display_opt v = (case v of None \<Rightarrow> Some ''undefined'' | Some x \<Rightarrow> display x)"

fun digits :: "nat \<Rightarrow> string" where
  "digits n = (if n < 10 then [char_of (48 + n)] else digits (n div 10) @ [char_of (48 + n mod 10)])"

subsection \<open>Package manifests\<close>

text \<open>
  \<open>addExport\<close> and the \<open>forEach\<close> loops that call it: the entries pushed, and whether the
  walk came to its end (\<open>False\<close>: \<open>Object.entries(null)\<close> raised a \<open>TypeError\<close>).
\<close>

fun addExport :: "string \<Rightarrow> json \<Rightarrow> api list \<times> bool"
  and addExports :: "(string \<times> json) list \<Rightarrow> api list \<times> bool"
  and addExportsArr :: "nat \<Rightarrow> json list \<Rightarrow> api list \<times> bool"
where
  "addExport key (JStr v) =
     ([\<lparr>signature = (if key = ''.'' then ''default export'' else key),
        description = ''Exported from '' @ v, category = ''export''\<rparr>], True)"
| "addExport key (JObj kvs) = addExports kvs"
| "addExport key (JArr vs) = addExportsArr 0 vs"
| "addExport key JNull = ([], False)"
| "addExport key (JBool b) = ([], True)"
| "addExport key (JNum l) = ([], True)"
| "addExports [] = ([], True)"
| "addExports (kv # kvs) =
     (case addExport (fst kv) (snd kv) of
        (a, False) \<Rightarrow> (a, False)
      | (a, True) \<Rightarrow> (case addExports kvs of (b, done) \<Rightarrow> (a @ b, done)))"
| "addExportsArr i [] = ([], True)"
| "addExportsArr i (v # vs) =
     (case addExport (digits i) v of
        (a, False) \<Rightarrow> (a, False)
      | (a, True) \<Rightarrow> (case addExportsArr (Suc i) vs of (b, done) \<Rightarrow> (a @ b, done)))"

text \<open>
  The entry pushed for a field of the manifest, none when the field is falsy; \<open>None\<close> when
  the field has no text and the template literal raises.
\<close>

definition field_api :: "string \<Rightarrow> string \<Rightarrow> json option \<Rightarrow> api list option" where
  "field_api name label v =
     (if truthy_opt v
      then map_option (\<lambda>t. [\<lparr>signature = name, description = label @ t, category = ''export''\<rparr>])
             (display_opt v)
      else Some [])"

text \<open>The body of the inner \<open>try\<close>, with what it had pushed when an exception ended it.\<close>

definition manifest_apis :: "string \<Rightarrow> api list" where
  "manifest_apis text =
     (case JSON_parse text of
        None \<Rightarrow> []
      | Some JNull \<Rightarrow> []
      | Some pkg \<Rightarrow>
          let exports = get_prop pkg ''exports'';
              (exported, done) =
                (case exports of
                   Some (JObj kvs) \<Rightarrow> addExports kvs
                 | Some (JArr vs) \<Rightarrow> addExportsArr 0 vs
                 | _ \<Rightarrow> ([], True));
              types = js_or (get_prop pkg ''types'') (get_prop pkg ''typings'')
          in if \<not> done then exported
             else (case field_api ''main'' ''Main entry: '' (get_prop pkg ''main'') of
                     None \<Rightarrow> exported
                   | Some main_entry \<Rightarrow>
                       (case field_api ''types'' ''TypeScript definitions: '' types of
                          None \<Rightarrow> exported @ main_entry
                        | Some types_entry \<Rightarrow> exported @ main_entry @ types_entry)))"

subsection \<open>The tool\<close>

text \<open>What the branch for the given content type pushes, before duplicates are removed.\<close>

definition extract_raw :: "string \<Rightarrow> string \<Rightarrow> api list option" where
  "extract_raw text contentType =
     (if contentType = ''md'' \<or> contentType = ''rst'' then markdown_apis text
      else if contentType = ''d.ts'' \<or> contentType = ''ts'' then ts_apis text
      else if contentType = ''js'' then js_apis text
      else if contentType = ''py'' \<or> contentType = ''python'' then py_apis text
      else if contentType = ''java'' then java_apis text
      else if contentType = ''rs'' \<or> contentType = ''rust'' then rust_apis text
      else if contentType = ''go'' then go_apis text
      else if contentType = ''rb'' \<or> contentType = ''ruby'' then rb_apis text
      else if contentType = ''cpp'' \<or> contentType = ''cc'' \<or> contentType = ''h'' \<or> contentType = ''hpp''
        then cpp_apis text
      else if contentType = ''cs'' \<or> contentType = ''csharp'' then cs_apis text
      else if contentType = ''php'' then php_apis text
      else if contentType = ''json'' \<and> str_includes text ''package.json'' then Some (manifest_apis text)
      else Some [])"

subsection \<open>Removing duplicates\<close>

text \<open>
  The closing loop: \<open>seen\<close> is the set of signatures met so far, \<open>uniqueApis\<close> the list
  being built.
\<close>

fun dedup :: "string set \<Rightarrow> api list \<Rightarrow> api list \<Rightarrow> api list" where
  "dedup seen uniqueApis [] = uniqueApis"
| "dedup seen uniqueApis (a # as) =
     (if signature a \<in> seen then dedup seen uniqueApis as
      else dedup (insert (signature a) seen) (uniqueApis @ [a]) as)"

text \<open>\<open>execute\<close>: \<open>None\<close> when a scanning loop does not return.\<close>

definition extractAllApis :: "string \<Rightarrow> string \<Rightarrow> extract_result option" where
  "extractAllApis text contentType =
     map_option (\<lambda>raw. \<lparr>apis = dedup {} [] raw, success = True\<rparr>) (extract_raw text contentType)"

text \<open>
  What the specification asks of the result, in its words: of the entries pushed, the first
  occurrence of each signature, in the order of the pushes.
\<close>

fun first_occurrences :: "api list \<Rightarrow> api list" where
  "first_occurrences [] = []"
| "first_occurrences (a # as) = a # first_occurrences (filter (\<lambda>b. signature b \<noteq> signature a) as)"

text \<open>An expression that may match the empty string (a safe over-approximation).\<close>

fun nullable :: "re \<Rightarrow> bool" where
  "nullable Emp = True"
| "nullable (Chr c) = False"
| "nullable (Cls neg items) = False"
| "nullable Dot = False"
| "nullable Bol = True"
| "nullable Eol = True"
| "nullable (Cat a b) = (nullable a \<and> nullable b)"
| "nullable (Alt a b) = (nullable a \<or> nullable b)"
| "nullable (Rep mn mx greedy r) = (mn = 0 \<or> mx = Some 0 \<or> nullable r)"
| "nullable (Cap n r) = nullable r"

section \<open>The file retriever (fetch-all-docs)\<close>

subsection \<open>The remote host\<close>

text \<open>
  What the tool sees of the network. \<open>fetch url\<close> is either rejected (a network error,
  with its message) or answers with a status code and a body (\<open>None\<close> when reading the
  body fails). \<open>buffer_text v\<close> is \<open>Buffer.from(v, 'base64').toString()\<close>,
  \<open>None\<close> when it raises.
\<close>

datatype response = Rejected string | Response nat "string option"

text \<open>\<open>response.ok\<close>\<close>

definition is_ok :: "nat \<Rightarrow> bool" where
  "is_ok status = (200 \<le> status \<and> status \<le> 299)"

record host =
  fetch :: "string \<Rightarrow> response"
  buffer_text :: "json option \<Rightarrow> string option"

text \<open>
  \<open>fetch\<close>, the test of \<open>response.ok\<close> and the reading of the body, as one step:
  something raised, the answer was not ok, or the body.
\<close>

datatype 'a got = Raised | NotOk | Got 'a

definition response_text :: "response \<Rightarrow> string got" where
  "response_text r =
     (case r of
        Rejected msg \<Rightarrow> Raised
      | Response status body \<Rightarrow>
          if is_ok status then (case body of None \<Rightarrow> Raised | Some b \<Rightarrow> Got b) else NotOk)"

definition response_json :: "response \<Rightarrow> json got" where
  "response_json r =
     (case response_text r of
        Raised \<Rightarrow> Raised
      | NotOk \<Rightarrow> NotOk
      | Got b \<Rightarrow> (case JSON_parse b of None \<Rightarrow> Raised | Some v \<Rightarrow> Got v))"

definition get_text :: "host \<Rightarrow> string \<Rightarrow> string got" where
  "get_text h url = response_text (fetch h url)"

definition get_json :: "host \<Rightarrow> string \<Rightarrow> json got" where
  "get_json h url = response_json (fetch h url)"

text \<open>\<open>for (const x of v)\<close>: the elements visited, \<open>None\<close> when \<open>v\<close> is not iterable.\<close>

fun iterable :: "json \<Rightarrow> json list option" where
  "iterable (JArr vs) = Some vs"
| "iterable (JStr s) = Some (map (\<lambda>c. JStr [c]) s)"
| "iterable v = None"

text \<open>
  The test \<open>file.type === 'file' && file.name.endsWith(...)\<close> on an entry of a directory
  listing: it raises on \<open>null\<close> and on a file entry whose name is not a string, it is false
  for an entry that is not a file, and otherwise it goes on with the name.
\<close>

datatype entry_test = Raises | Skips | Named string

definition named_file :: "json \<Rightarrow> entry_test" where
  "named_file file =
     (if file = JNull then Raises
      else if get_prop file ''type'' = Some (JStr ''file'')
      then (case get_prop file ''name'' of Some (JStr n) \<Rightarrow> Named n | _ \<Rightarrow> Raises)
      else Skips)"

text \<open>
  \<open>fetch(file.download_url)\<close> and the reading of the text, inside its own \<open>try\<close>. The
  address fetched is the text of \<open>download_url\<close>; the host rejects a text that is no
  address.
\<close>

definition download :: "host \<Rightarrow> json \<Rightarrow> string got" where
  "download h file =
     (case display_opt (get_prop file ''download_url'') of
        Some u \<Rightarrow> get_text h u
      | None \<Rightarrow> Raised)"

subsection \<open>Helpers of the tool\<close>

text \<open>\<open>Math.ceil(text.length / 4)\<close>\<close>

definition estimateTokens :: "string \<Rightarrow> nat" where
  "estimateTokens text = (length text + 3) div 4"

definition SKIP_FILES :: "string list" where
  "SKIP_FILES = [''CHANGELOG.md'', ''CONTRIBUTING.md'', ''CODE_OF_CONDUCT.md'', ''SECURITY.md'',
                 ''LICENSE'', ''LICENSE.md'', ''PATENTS'', ''.github'', ''HISTORY.md'', ''CHANGES.md'',
                 ''NEWS.md'']"

text \<open>
  \<open>String.prototype.toUpperCase\<close> on the code units below 256. The sharp s becomes
  \<open>SS\<close>. The micro sign and the y with diaeresis have upper-case forms above 255 and are
  left as they are: neither form is an ASCII letter.
\<close>

definition upper_char :: "char \<Rightarrow> string" where
  "upper_char c =
     (if in_range CHR ''a'' CHR ''z'' c then [char_of (of_char c - (32::nat))]
      else if c = CHR 0xDF then ''SS''
      else if in_range (CHR 0xE0) (CHR 0xFE) c \<and> c \<noteq> CHR 0xF7 then [char_of (of_char c - (32::nat))]
      else [c])"

definition toUpperCase :: "string \<Rightarrow> string" where
  "toUpperCase s = concat (map upper_char s)"

definition shouldSkipFile :: "string \<Rightarrow> bool" where
  "shouldSkipFile path =
     (let upperPath = toUpperCase path
      in list_ex (\<lambda>skip. str_includes upperPath (toUpperCase skip)) SKIP_FILES)"

text \<open>\<open>s.replace(pattern, replacement)\<close> for a string pattern: the first occurrence only.\<close>

fun replace_first :: "string \<Rightarrow> string \<Rightarrow> string \<Rightarrow> string" where
  "replace_first pat repl [] = (if pat = [] then repl else [])"
| "replace_first pat repl (c # cs) =
     (if startsWith (c # cs) pat then repl @ drop (length pat) (c # cs)
      else c # replace_first pat repl cs)"

text \<open>\<open>s.replace(/\/$/, '')\<close>\<close>

definition strip_slash :: "string \<Rightarrow> string" where
  "strip_slash s = (if endsWith s ''/'' then butlast s else s)"

text \<open>\<open>parts[i]\<close> inside a template literal.\<close>

definition part :: "string list \<Rightarrow> nat \<Rightarrow> string" where
  "part parts i = (if i < length parts then parts ! i else ''undefined'')"

text \<open>\<open>name.split('.').pop() || d\<close>\<close>

definition extension_or :: "string \<Rightarrow> string \<Rightarrow> string" where
  "extension_or name d =
     (case rev (split CHR ''.'' name) of [] \<Rightarrow> d | e # _ \<Rightarrow> or_default e d)"

subsection \<open>The budget\<close>

text \<open>
  \<open>maxFiles\<close> is a number of the host (the schema says \<open>z.number()\<close>, the code tests
  nothing more): a finite value, which need not be whole nor positive, an infinity, or
  \<open>NaN\<close>. The model takes every rational as a finite value.
\<close>

text \<open>\<open>files.length >= maxFiles\<close> and \<open>files.length < maxFiles\<close>; both are false for
  \<open>NaN\<close>.\<close>

definition length_ge :: "'a list \<Rightarrow> number \<Rightarrow> bool" where
  "length_ge fs maxFiles =
     (case maxFiles of
        Finite q \<Rightarrow> q \<le> of_nat (length fs)
      | PlusInfinity \<Rightarrow> False
      | MinusInfinity \<Rightarrow> True
      | NaN \<Rightarrow> False)"

definition length_lt :: "'a list \<Rightarrow> number \<Rightarrow> bool" where
  "length_lt fs maxFiles =
     (case maxFiles of
        Finite q \<Rightarrow> of_nat (length fs) < q
      | PlusInfinity \<Rightarrow> True
      | MinusInfinity \<Rightarrow> False
      | NaN \<Rightarrow> False)"

subsection \<open>The files fetched\<close>

record fetched_file =
  path :: string
  file_content :: string
  file_type :: string
  estimatedTokens :: "nat option"
  truncated :: bool
  originalSize :: "nat option"
  largeFile :: bool

record fetch_result =
  files :: "fetched_file list"
  fetch_success :: bool
  fetch_error :: "string option"
  totalFound :: "nat option"

datatype search_type = Docs | Types | Source | All

text \<open>An entry with only \<open>path\<close>, \<open>content\<close> and \<open>type\<close>.\<close>

definition plain_file :: "string \<Rightarrow> string \<Rightarrow> string \<Rightarrow> fetched_file" where
  "plain_file p c t = \<lparr>path = p, file_content = c, file_type = t, estimatedTokens = None,
                        truncated = False, originalSize = None, largeFile = False\<rparr>"

text \<open>The entry pushed for a ranked candidate path.\<close>

definition candidate_file :: "string \<Rightarrow> string \<Rightarrow> fetched_file" where
  "candidate_file p c =
     (let fileType = extension_or p ''unknown''; tokens = estimateTokens c
      in if 50000 < tokens then
           (if p = ''package.json''
            then \<lparr>path = p, file_content = c, file_type = fileType, estimatedTokens = Some tokens,
                   truncated = False, originalSize = None, largeFile = True\<rparr>
            else \<lparr>path = p, file_content = take 200000 c, file_type = fileType,
                   estimatedTokens = Some tokens, truncated = True, originalSize = Some (length c),
                   largeFile = False\<rparr>)
         else \<lparr>path = p, file_content = c, file_type = fileType, estimatedTokens = Some tokens,
                truncated = False, originalSize = None, largeFile = False\<rparr>)"

text \<open>The entry pushed for a member of a documentation directory.\<close>

definition docs_file :: "string \<Rightarrow> string \<Rightarrow> string \<Rightarrow> fetched_file" where
  "docs_file filePath name c =
     (let tokens = estimateTokens c
      in if 50000 < tokens
         then \<lparr>path = filePath, file_content = take 200000 c, file_type = extension_or name ''unknown'',
                estimatedTokens = Some tokens, truncated = True, originalSize = Some (length c),
                largeFile = False\<rparr>
         else \<lparr>path = filePath, file_content = c, file_type = extension_or name ''unknown'',
                estimatedTokens = Some tokens, truncated = False, originalSize = None,
                largeFile = False\<rparr>)"

subsection \<open>Ranked candidate paths\<close>

definition doc_candidates :: "string list" where
  "doc_candidates = [''README.md'', ''readme.md'', ''README.rst'', ''API.md'', ''api.md'',
     ''REFERENCE.md'', ''reference.md'', ''docs/API.md'', ''docs/api.md'', ''docs/reference.md'',
     ''docs/getting-started.md'', ''docs/quick-start.md'', ''documentation.md'', ''DOCUMENTATION.md'',
     ''USAGE.md'', ''GUIDE.md'']"

definition type_candidates :: "string list" where
  "type_candidates = [''index.d.ts'', ''types/index.d.ts'', ''dist/index.d.ts'', ''lib/index.d.ts'',
     ''typings/index.d.ts'', ''lodash.d.ts'', ''types.d.ts'']"

definition source_candidates :: "string list" where
  "source_candidates = [''package.json'', ''index.js'', ''index.ts'', ''src/index.js'', ''src/index.ts'',
     ''lib/index.js'', ''dist/index.js'', ''lodash.js'', ''main.js'', ''main.ts'']"

definition docPaths :: "search_type \<Rightarrow> string list" where
  "docPaths searchType =
     (if searchType = Docs \<or> searchType = All then doc_candidates else [])
     @ (if searchType = Types \<or> searchType = All then type_candidates else [])
     @ (if searchType = Source \<or> searchType = All then source_candidates else [])"

text \<open>
  The branch: \<open>main\<close> or \<open>master\<close>, whichever answers first for \<open>README.md\<close>, else
  \<open>main\<close>. A rejected fetch here is not caught locally and ends the whole call.
\<close>

fun resolve_branch :: "host \<Rightarrow> string \<Rightarrow> string list \<Rightarrow> string + string" where
  "resolve_branch h baseUrl [] = Inr ''main''"
| "resolve_branch h baseUrl (currentBranch # branches) =
     (case fetch h (baseUrl @ ''/'' @ currentBranch @ ''/README.md'') of
        Rejected msg \<Rightarrow> Inl msg
      | Response status body \<Rightarrow>
          if is_ok status then Inr currentBranch else resolve_branch h baseUrl branches)"

text \<open>The loop over the candidate paths.\<close>

fun candidate_loop :: "host \<Rightarrow> number \<Rightarrow> string \<Rightarrow> string list \<Rightarrow> fetched_file list \<Rightarrow> fetched_file list" where
  "candidate_loop h maxFiles branchUrl [] fs = fs"
| "candidate_loop h maxFiles branchUrl (p # ps) fs =
     (if length_ge fs maxFiles then fs
      else if shouldSkipFile p then candidate_loop h maxFiles branchUrl ps fs
      else (case get_text h (branchUrl @ ''/'' @ p) of
              Got c \<Rightarrow> candidate_loop h maxFiles branchUrl ps (fs @ [candidate_file p c])
            | _ \<Rightarrow> candidate_loop h maxFiles branchUrl ps fs))"

subsection \<open>Documentation directories\<close>

text \<open>
  The loops below return the list of files and whether they ran to their end: \<open>False\<close>
  when an exception left the loop, to be caught by the \<open>try\<close> around the whole pass.
\<close>

fun docs_files :: "host \<Rightarrow> number \<Rightarrow> string \<Rightarrow> json list \<Rightarrow> fetched_file list \<Rightarrow> fetched_file list \<times> bool" where
  "docs_files h maxFiles dir [] fs = (fs, True)"
| "docs_files h maxFiles dir (file # others) fs =
     (if length_ge fs maxFiles then (fs, True)
      else (case named_file file of
              Raises \<Rightarrow> (fs, False)
            | Skips \<Rightarrow> docs_files h maxFiles dir others fs
            | Named name \<Rightarrow>
                if endsWith name ''.md'' \<or> endsWith name ''.rst'' then
                  (let filePath = dir @ ''/'' @ name
                   in if shouldSkipFile filePath then docs_files h maxFiles dir others fs
                      else (case download h file of
                              Got c \<Rightarrow> docs_files h maxFiles dir others (fs @ [docs_file filePath name c])
                            | _ \<Rightarrow> docs_files h maxFiles dir others fs))
                else docs_files h maxFiles dir others fs))"

fun docs_dirs :: "host \<Rightarrow> number \<Rightarrow> string \<Rightarrow> string list \<Rightarrow> fetched_file list \<Rightarrow> fetched_file list" where
  "docs_dirs h maxFiles api [] fs = fs"
| "docs_dirs h maxFiles api (dir # dirs) fs =
     (if length_ge fs maxFiles then fs
      else (case get_json h (api @ ''/contents/'' @ dir) of
              Raised \<Rightarrow> fs
            | NotOk \<Rightarrow> docs_dirs h maxFiles api dirs fs
            | Got docsContents \<Rightarrow>
                (case iterable docsContents of
                   None \<Rightarrow> fs
                 | Some entries \<Rightarrow>
                     (case docs_files h maxFiles dir entries fs of
                        (fs', True) \<Rightarrow> docs_dirs h maxFiles api dirs fs'
                      | (fs', False) \<Rightarrow> fs'))))"

definition docDirs :: "string list" where
  "docDirs = [''docs'', ''documentation'', ''doc'', ''api-docs'']"

text \<open>The pass starts with a look at the repository's metadata, which it only logs; reading
  \<open>repoData.full_name\<close> raises when the body is \<open>null\<close>.\<close>

definition docs_pass :: "host \<Rightarrow> number \<Rightarrow> search_type \<Rightarrow> string \<Rightarrow> fetched_file list \<Rightarrow> fetched_file list" where
  "docs_pass h maxFiles searchType api fs =
     (if length_lt fs maxFiles \<and> (searchType = All \<or> searchType = Docs) then
        (case get_json h api of
           Raised \<Rightarrow> fs
         | NotOk \<Rightarrow> docs_dirs h maxFiles api docDirs fs
         | Got repoData \<Rightarrow> if repoData = JNull then fs else docs_dirs h maxFiles api docDirs fs)
      else fs)"

subsection \<open>Type-definition directories\<close>

fun types_files :: "host \<Rightarrow> number \<Rightarrow> string \<Rightarrow> json list \<Rightarrow> fetched_file list \<Rightarrow> fetched_file list \<times> bool" where
  "types_files h maxFiles location [] fs = (fs, True)"
| "types_files h maxFiles location (file # others) fs =
     (if length_ge fs maxFiles then (fs, True)
      else (case named_file file of
              Raises \<Rightarrow> (fs, False)
            | Skips \<Rightarrow> types_files h maxFiles location others fs
            | Named name \<Rightarrow>
                if endsWith name ''.d.ts'' then
                  (case download h file of
                     Got c \<Rightarrow>
                       types_files h maxFiles location others
                         (fs @ [plain_file (if location \<noteq> [] then location @ ''/'' @ name else name) c ''d.ts''])
                   | _ \<Rightarrow> types_files h maxFiles location others fs)
                else types_files h maxFiles location others fs))"

fun types_dirs :: "host \<Rightarrow> number \<Rightarrow> string \<Rightarrow> string list \<Rightarrow> fetched_file list \<Rightarrow> fetched_file list" where
  "types_dirs h maxFiles api [] fs = fs"
| "types_dirs h maxFiles api (location # locations) fs =
     (if length_ge fs maxFiles then fs
      else (case get_json h (if location \<noteq> [] then api @ ''/contents/'' @ location else api @ ''/contents'') of
              Raised \<Rightarrow> fs
            | NotOk \<Rightarrow> types_dirs h maxFiles api locations fs
            | Got contents \<Rightarrow>
                (case contents of
                   JArr entries \<Rightarrow>
                     (case types_files h maxFiles location entries fs of
                        (fs', True) \<Rightarrow> types_dirs h maxFiles api locations fs'
                      | (fs', False) \<Rightarrow> fs')
                 | _ \<Rightarrow> types_dirs h maxFiles api locations fs)))"

definition typeLocations :: "string list" where
  "typeLocations = [[], ''types'', ''typings'', ''dist'', ''lib'', ''@types'']"

definition types_pass :: "host \<Rightarrow> number \<Rightarrow> search_type \<Rightarrow> string \<Rightarrow> fetched_file list \<Rightarrow> fetched_file list" where
  "types_pass h maxFiles searchType api fs =
     (if length_lt fs maxFiles \<and> (searchType = Types \<or> searchType = All)
      then types_dirs h maxFiles api typeLocations fs
      else fs)"

subsection \<open>Packages of a monorepo\<close>

text \<open>\<open>file.name\<close> when it is \<open>index.d.ts\<close>, \<open>index.ts\<close> or \<open>index.js\<close>.\<close>

definition index_name :: "json \<Rightarrow> string option" where
  "index_name file =
     (case get_prop file ''name'' of
        Some (JStr name) \<Rightarrow>
          if name = ''index.d.ts'' \<or> name = ''index.ts'' \<or> name = ''index.js'' then Some name else None
      | _ \<Rightarrow> None)"

text \<open>The files of one package; \<open>False\<close> when an exception ended the walk.\<close>

fun package_files :: "host \<Rightarrow> number \<Rightarrow> string \<Rightarrow> json list \<Rightarrow> fetched_file list \<Rightarrow> fetched_file list \<times> bool" where
  "package_files h maxFiles pkgName [] fs = (fs, True)"
| "package_files h maxFiles pkgName (file # others) fs =
     (if length_ge fs maxFiles then (fs, True)
      else if file = JNull then (fs, False)
      else (case (if get_prop file ''type'' = Some (JStr ''file'') then index_name file else None) of
              Some name \<Rightarrow>
                (case download h file of
                   Got c \<Rightarrow>
                     package_files h maxFiles pkgName others
                       (fs @ [plain_file (''packages/'' @ pkgName @ ''/'' @ name) c (extension_or name ''unknown'')])
                 | _ \<Rightarrow> package_files h maxFiles pkgName others fs)
            | None \<Rightarrow> package_files h maxFiles pkgName others fs))"

text \<open>The loop over the packages. The name of a package enters the addresses by its
  text; when it has none, the exception ends the pass.\<close>

fun packages_loop :: "host \<Rightarrow> number \<Rightarrow> string \<Rightarrow> json list \<Rightarrow> fetched_file list \<Rightarrow> fetched_file list" where
  "packages_loop h maxFiles api [] fs = fs"
| "packages_loop h maxFiles api (pkg # pkgs) fs =
     (if length_ge fs maxFiles then fs
      else if pkg = JNull then fs
      else if get_prop pkg ''type'' = Some (JStr ''dir'') then
        (case display_opt (get_prop pkg ''name'') of
           None \<Rightarrow> fs
         | Some pkgName \<Rightarrow>
           (case get_json h (api @ ''/contents/packages/'' @ pkgName @ ''/package.json'') of
              Raised \<Rightarrow> fs
            | NotOk \<Rightarrow> packages_loop h maxFiles api pkgs fs
            | Got pkgJsonData \<Rightarrow>
                (case (if pkgJsonData = JNull then None
                       else buffer_text h (get_prop pkgJsonData ''content'')) of
                   None \<Rightarrow> fs
                 | Some pkgJsonContent \<Rightarrow>
                     (let fs1 = fs @ [plain_file (''packages/'' @ pkgName @ ''/package.json'') pkgJsonContent ''json'']
                      in case fetch h (api @ ''/contents/packages/'' @ pkgName) of
                           Rejected msg \<Rightarrow> fs1
                         | Response status body \<Rightarrow>
                             if is_ok status \<and> length_lt fs1 maxFiles then
                               (case response_json (Response status body) of
                                  Got pkgContents \<Rightarrow>
                                    (case iterable pkgContents of
                                       None \<Rightarrow> fs1
                                     | Some entries \<Rightarrow>
                                         (case package_files h maxFiles pkgName entries fs1 of
                                            (fs2, True) \<Rightarrow> packages_loop h maxFiles api pkgs fs2
                                          | (fs2, False) \<Rightarrow> fs2))
                                | _ \<Rightarrow> fs1)
                             else packages_loop h maxFiles api pkgs fs1))))
      else packages_loop h maxFiles api pkgs fs)"

text \<open>Reading \<open>packages.length\<close> raises when the listing is \<open>null\<close>.\<close>

definition monorepo_pass :: "host \<Rightarrow> number \<Rightarrow> search_type \<Rightarrow> string \<Rightarrow> fetched_file list \<Rightarrow> fetched_file list" where
  "monorepo_pass h maxFiles searchType api fs =
     (if length_lt fs maxFiles \<and> (searchType = Types \<or> searchType = All) then
        (case get_json h (api @ ''/contents/packages'') of
           Got packages \<Rightarrow>
             (case iterable packages of
                None \<Rightarrow> fs
              | Some pkgs \<Rightarrow> packages_loop h maxFiles api pkgs fs)
         | _ \<Rightarrow> fs)
      else fs)"

subsection \<open>Files named by the manifest\<close>

text \<open>
  The address of the main file is made of the text of its value, outside the inner \<open>try\<close>:
  when the value has no text the exception ends the whole step (\<open>None\<close>). The file is
  pushed only when the manifest names it by a string: for any other value
  \<open>mainFile.split\<close> raises inside the inner \<open>try\<close>.
\<close>

definition main_fetch ::
  "host \<Rightarrow> number \<Rightarrow> string \<Rightarrow> json option \<Rightarrow> fetched_file list \<Rightarrow> fetched_file list option" where
  "main_fetch h maxFiles branchUrl mainFile fs =
     (if truthy_opt mainFile \<and> length_lt fs maxFiles then
        (case display_opt mainFile of
           None \<Rightarrow> None
         | Some m \<Rightarrow>
             Some (case get_text h (branchUrl @ ''/'' @ m) of
                     Got c \<Rightarrow>
                       (case mainFile of
                          Some (JStr name) \<Rightarrow> fs @ [plain_file name c (extension_or name ''js'')]
                        | _ \<Rightarrow> fs)
                   | _ \<Rightarrow> fs))
      else Some fs)"

text \<open>The types file is pushed whatever its value is; the model records the value's text as
  the path.\<close>

definition types_fetch ::
  "host \<Rightarrow> number \<Rightarrow> string \<Rightarrow> json option \<Rightarrow> fetched_file list \<Rightarrow> fetched_file list option" where
  "types_fetch h maxFiles branchUrl typesFile fs =
     (if truthy_opt typesFile \<and> length_lt fs maxFiles then
        (case display_opt typesFile of
           None \<Rightarrow> None
         | Some t \<Rightarrow>
             Some (case get_text h (branchUrl @ ''/'' @ t) of
                     Got c \<Rightarrow> fs @ [plain_file t c ''d.ts'']
                   | _ \<Rightarrow> fs))
      else Some fs)"

text \<open>The step as a whole, inside its \<open>try\<close>: an exception leaves what was pushed.\<close>

definition manifest_pass :: "host \<Rightarrow> number \<Rightarrow> search_type \<Rightarrow> string \<Rightarrow> fetched_file list \<Rightarrow> fetched_file list" where
  "manifest_pass h maxFiles searchType branchUrl fs =
     (if searchType = Source \<or> searchType = All then
        (case find (\<lambda>f. path f = ''package.json'') fs of
           None \<Rightarrow> fs
         | Some packageJsonFile \<Rightarrow>
             if truncated packageJsonFile then fs
             else (case JSON_parse (file_content packageJsonFile) of
                     None \<Rightarrow> fs
                   | Some pkg \<Rightarrow>
                       if pkg = JNull then fs
                       else
                         (let mainFile = js_or (js_or (get_prop pkg ''main'') (get_prop pkg ''module''))
                                               (get_prop pkg ''browser'');
                              typesFile = js_or (get_prop pkg ''types'') (get_prop pkg ''typings'')
                          in case main_fetch h maxFiles branchUrl mainFile fs of
                               None \<Rightarrow> fs
                             | Some fs1 \<Rightarrow>
                                 (case types_fetch h maxFiles branchUrl typesFile fs1 of
                                    None \<Rightarrow> fs1
                                  | Some fs2 \<Rightarrow> fs2))))
      else fs)"

subsection \<open>The tool\<close>

definition all_passes :: "host \<Rightarrow> number \<Rightarrow> search_type \<Rightarrow> string \<Rightarrow> string \<Rightarrow> fetched_file list" where
  "all_passes h maxFiles searchType api branchUrl =
     manifest_pass h maxFiles searchType branchUrl
       (monorepo_pass h maxFiles searchType api
         (types_pass h maxFiles searchType api
           (docs_pass h maxFiles searchType api
             (candidate_loop h maxFiles branchUrl (docPaths searchType) []))))"

text \<open>\<open>execute\<close>, with the defaults \<open>searchType = 'all'\<close> and \<open>maxFiles = 50\<close>.\<close>

definition fetchAllDocs :: "host \<Rightarrow> string \<Rightarrow> search_type option \<Rightarrow> number option \<Rightarrow> fetch_result" where
  "fetchAllDocs h repoUrl searchTypeArg maxFilesArg =
     (let searchType = (case searchTypeArg of None \<Rightarrow> All | Some t \<Rightarrow> t);
          maxFiles = (case maxFilesArg of None \<Rightarrow> Finite 50 | Some n \<Rightarrow> n);
          parts = split CHR ''/'' (replace_first ''https://github.com/'' [] repoUrl);
          api = ''https://api.github.com/repos/'' @ part parts 0 @ ''/'' @ part parts 1;
          baseUrl = strip_slash (replace_first ''github.com'' ''raw.githubusercontent.com'' repoUrl)
      in case resolve_branch h baseUrl [''main'', ''master''] of
           Inl msg \<Rightarrow> \<lparr>files = [], fetch_success = False, fetch_error = Some msg, totalFound = None\<rparr>
         | Inr branch \<Rightarrow>
             (let fs = all_passes h maxFiles searchType api (baseUrl @ ''/'' @ branch)
              in \<lparr>files = fs, fetch_success = (fs \<noteq> []),
                   fetch_error = (if fs = [] then Some ''No documentation files found'' else None),
                   totalFound = Some (length fs)\<rparr>))"

subsection \<open>Invariants of the list of files\<close>

text \<open>
  The list stays within the budget: for a finite \<open>maxFiles\<close> it has at most as many
  entries as the least whole number that is not below \<open>maxFiles\<close>, and none when that is
  negative. No path in it is on the denylist.
\<close>

definition in_budget :: "number \<Rightarrow> fetched_file list \<Rightarrow> bool" where
  "in_budget maxFiles fs =
     (case maxFiles of
        Finite q \<Rightarrow> int (length fs) \<le> max 0 \<lceil>q\<rceil>
      | MinusInfinity \<Rightarrow> fs = []
      | _ \<Rightarrow> True)"

definition off_denylist :: "fetched_file list \<Rightarrow> bool" where
  "off_denylist fs = list_all (\<lambda>f. \<not> shouldSkipFile (path f)) fs"

subsection \<open>Hosts for examples\<close>

text \<open>
  A host that serves the given pages with status 200 and answers 404 for every other
  address.
\<close>

definition static_host :: "(string \<times> string) list \<Rightarrow> host" where
  "static_host pages =
     \<lparr>fetch = (\<lambda>url. case map_of pages url of
                        None \<Rightarrow> Response 404 None
                      | Some body \<Rightarrow> Response 200 (Some body)),
      buffer_text = (\<lambda>v. None)\<rparr>"

text \<open>A directory listing with one file:
  \<open>[{"type":"file","name":name,"download_url":url}]\<close>\<close>

definition listing_of :: "string \<Rightarrow> string \<Rightarrow> string" where
  "listing_of name url =
     ''[{'' @ quoted ''type'' @ '':'' @ quoted ''file'' @ '','' @ quoted ''name'' @ '':'' @ quoted name
     @ '','' @ quoted ''download_url'' @ '':'' @ quoted url @ ''}]''"

text \<open>A repository whose \<open>docs\<close> directory holds \<open>CHANGELOG.rst\<close>.\<close>

definition changelog_host :: host where
  "changelog_host = static_host
     [(''https://api.github.com/repos/o/r/contents/docs'',
       listing_of ''CHANGELOG.rst'' ''https://files.example/CHANGELOG.rst''),
      (''https://files.example/CHANGELOG.rst'', ''changes'')]"

text \<open>A repository whose root directory holds the type definitions \<open>big.d.ts\<close>, with
  the given text.\<close>

definition big_types_host :: "string \<Rightarrow> host" where
  "big_types_host big = static_host
     [(''https://api.github.com/repos/o/r/contents'',
       listing_of ''big.d.ts'' ''https://files.example/big.d.ts''),
      (''https://files.example/big.d.ts'', big)]"

text \<open>A directory listing with two files, and a repository whose \<open>docs\<close> directory holds
  \<open>guide.md\<close> and \<open>intro.md\<close>.\<close>

definition listing_of_two :: "string \<Rightarrow> string \<Rightarrow> string \<Rightarrow> string \<Rightarrow> string" where
  "listing_of_two name1 url1 name2 url2 =
     butlast (listing_of name1 url1) @ '','' @ tl (listing_of name2 url2)"

definition guides_host :: host where
  "guides_host = static_host
     [(''https://api.github.com/repos/o/r/contents/docs'',
       listing_of_two ''guide.md'' ''https://files.example/guide.md''
                      ''intro.md'' ''https://files.example/intro.md''),
      (''https://files.example/guide.md'', ''guide''),
      (''https://files.example/intro.md'', ''intro'')]"

section \<open>The documentation crawler (scrape-documentation)\<close>

subsection \<open>Pattern profiles\<close>




subsection \<open>Patterns built from selectors\<close>



text \<open>
  The profiles' selectors are put into the source text of regular expressions as they are.
  They are made of letters, digits, blanks, hyphens and dots, so that each character stands
  for itself but the dot, which stands for any character.
\<close>

definition selector_re :: "string \<Rightarrow> re" where
  "selector_re sel = seq (map (\<lambda>c. if c = CHR ''.'' then Dot else Chr c) sel)"











subsection \<open>Records found on a page\<close>

record scraped =
  api_name :: string
  scraped_signature :: string
  scraped_description :: string
  source_url :: string
  scraped_category :: string






subsection \<open>Links of a page\<close>






datatype 'a outcome = Returns 'a | Throws


subsection \<open>The crawl\<close>

record crawl_state =
  found :: "scraped list"
  visitedUrls :: "string set"
  urlsToVisit :: "string list"
  pagesScraped :: nat





subsection \<open>The tool\<close>





section \<open>The repository source resolver (analyze-repository)\<close>

subsection \<open>Tables\<close>

text \<open>The patterns \<open>DOC_PATTERNS.websites\<close>:
  \<open>/https?:\/\/[\w.-]+\.(?:io|dev|com|org|net)\/(?:docs?|api|reference)/i\<close>,
  \<open>/documentation.*(?:url|site|link)/i\<close> and \<open>/(?:docs?|api).*https?:\/\//i\<close>.\<close>

definition http_scheme :: re where
  "http_scheme = seq [lit ''http'', opt (Chr CHR ''s''), lit ''://'']"

definition website_patterns :: "re list" where
  "website_patterns =
     [ignore_case (seq [http_scheme, many1 (one_of [WordCh, Ch CHR ''.'', Ch CHR ''-'']), Chr CHR ''.'',
                        alts (map lit [''io'', ''dev'', ''com'', ''org'', ''net'']), Chr CHR ''/'',
                        alts [seq [lit ''doc'', opt (Chr CHR ''s'')], lit ''api'', lit ''reference'']]),
      ignore_case (seq [lit ''documentation'', star Dot, alts (map lit [''url'', ''site'', ''link''])]),
      ignore_case (seq [alts [seq [lit ''doc'', opt (Chr CHR ''s'')], lit ''api''], star Dot, http_scheme])]"

text \<open>\<open>/https?:\/\/[^\s)>\]]+/\<close>\<close>

definition url_in_text :: re where
  "url_in_text = seq [http_scheme, many1 (none_of [SpaceCh, Ch CHR '')'', Ch CHR ''>'', Ch CHR '']''])]"

record manager_info =
  manager_name :: string
  manager_registry :: string

text \<open>\<open>PACKAGE_MANAGERS\<close>, in the order of its entries (the \<open>language\<close> of an entry is
  not read).\<close>

definition PACKAGE_MANAGERS :: "(string \<times> manager_info) list" where
  "PACKAGE_MANAGERS =
     [(''package.json'', \<lparr>manager_name = ''npm'', manager_registry = ''https://registry.npmjs.org/''\<rparr>),
      (''Cargo.toml'', \<lparr>manager_name = ''cargo'', manager_registry = ''https://crates.io/''\<rparr>),
      (''pom.xml'', \<lparr>manager_name = ''maven'', manager_registry = ''https://search.maven.org/''\<rparr>),
      (''build.gradle'', \<lparr>manager_name = ''gradle'', manager_registry = ''https://search.maven.org/''\<rparr>),
      (''requirements.txt'', \<lparr>manager_name = ''pip'', manager_registry = ''https://pypi.org/''\<rparr>),
      (''setup.py'', \<lparr>manager_name = ''pip'', manager_registry = ''https://pypi.org/''\<rparr>),
      (''pyproject.toml'', \<lparr>manager_name = ''pip'', manager_registry = ''https://pypi.org/''\<rparr>),
      (''go.mod'', \<lparr>manager_name = ''go'', manager_registry = ''https://pkg.go.dev/''\<rparr>),
      (''Gemfile'', \<lparr>manager_name = ''bundler'', manager_registry = ''https://rubygems.org/''\<rparr>),
      (''*.gemspec'', \<lparr>manager_name = ''gem'', manager_registry = ''https://rubygems.org/''\<rparr>),
      (''composer.json'', \<lparr>manager_name = ''composer'', manager_registry = ''https://packagist.org/''\<rparr>),
      (''Package.swift'', \<lparr>manager_name = ''spm'', manager_registry = ''https://swiftpackageindex.com/''\<rparr>),
      (''*.csproj'', \<lparr>manager_name = ''nuget'', manager_registry = ''https://www.nuget.org/''\<rparr>)]"

definition DOC_SITES :: "(string \<times> string list) list" where
  "DOC_SITES =
     [(''javascript'', [''npmjs.com'', ''unpkg.com'', ''jsdelivr.com'', ''nodejs.org'']),
      (''python'', [''readthedocs.io'', ''pypi.org'', ''python.org'', ''sphinx-doc.org'']),
      (''java'', [''javadoc.io'', ''maven.org'', ''docs.oracle.com'']),
      (''rust'', [''docs.rs'', ''crates.io'', ''rust-lang.org'']),
      (''go'', [''pkg.go.dev'', ''godoc.org'', ''golang.org'']),
      (''ruby'', [''rubydoc.info'', ''rubygems.org'', ''ruby-doc.org'']),
      (''cpp'', [''cppreference.com'', ''cplusplus.com'', ''doxygen.org'']),
      (''csharp'', [''docs.microsoft.com'', ''nuget.org'']),
      (''php'', [''php.net'', ''packagist.org'', ''phpdoc.org'']),
      (''swift'', [''developer.apple.com'', ''swiftpackageindex.com'']),
      (''kotlin'', [''kotlinlang.org'', ''dokka.dev''])]"

text \<open>
  \<open>new RegExp(`https?://[\\w.-]*${site}[/\\w.-]*`, 'gi')\<close>. The sites of the table are
  made of letters, hyphens and dots; in the pattern a dot of the site stands for any
  character.
\<close>

definition site_url_pattern :: "string \<Rightarrow> re" where
  "site_url_pattern site =
     ignore_case (seq [http_scheme, star (one_of [WordCh, Ch CHR ''.'', Ch CHR ''-'']), selector_re site,
                       star (one_of [Ch CHR ''/'', WordCh, Ch CHR ''.'', Ch CHR ''-''])])"

subsection \<open>Host functions\<close>

text \<open>\<open>String.prototype.toLowerCase\<close> on the code units below 256.\<close>

definition lower_char :: "char \<Rightarrow> char" where
  "lower_char c =
     (if in_range CHR ''A'' CHR ''Z'' c \<or> (in_range (CHR 0xC0) (CHR 0xDE) c \<and> c \<noteq> CHR 0xD7)
      then char_of (of_char c + (32::nat))
      else c)"

definition toLowerCase :: "string \<Rightarrow> string" where
  "toLowerCase s = map lower_char s"

text \<open>\<open>Object.entries(v)\<close>; \<open>None\<close> when it raises (on \<open>null\<close>).\<close>

fun indexed :: "nat \<Rightarrow> json list \<Rightarrow> (string \<times> json) list" where
  "indexed i [] = []"
| "indexed i (v # vs) = (digits i, v) # indexed (Suc i) vs"

fun object_entries :: "json \<Rightarrow> (string \<times> json) list option" where
  "object_entries JNull = None"
| "object_entries (JObj kvs) = Some kvs"
| "object_entries (JArr vs) = Some (indexed 0 vs)"
| "object_entries (JStr s) = Some (indexed 0 (map (\<lambda>c. JStr [c]) s))"
| "object_entries (JBool b) = Some []"
| "object_entries (JNum l) = Some []"

subsection \<open>The result\<close>

datatype source_kind = Website | Wiki | Readme | SourceDir | Registry | Generated

text \<open>A source; its address is a string, except for a homepage that the metadata gives
  as an array.\<close>

record doc_source =
  source_type :: source_kind
  source_link :: "json option"
  source_path :: "string option"
  priority :: nat

record language_share =
  language_name :: string
  percentage :: "int option"

record package_manager =
  pm_name :: string
  pm_registry :: string
  packageName :: "json option"

datatype structure_kind = Monorepo | Standard | MultiPackage

record project_structure =
  structure_type :: structure_kind
  mainPath :: "string option"
  packages :: "json option list option"
  hasDocs :: bool
  hasTests :: bool
  hasExamples :: bool

text \<open>What reached the outer \<open>catch\<close>: a rejected fetch with its message, the error thrown
  for a metadata answer that is not ok, a body that is not JSON, or a \<open>TypeError\<close>.\<close>

datatype failure = NetworkError string | MetadataStatus nat | BodyError | TypeError

record analysis =
  primaryLanguage :: string
  languages :: "language_share list"
  documentationSources :: "doc_source list"
  packageManager :: "package_manager option"
  projectStructure :: project_structure
  analysis_success :: bool
  analysis_error :: "failure option"

definition default_structure :: project_structure where
  "default_structure = \<lparr>structure_type = Standard, mainPath = None, packages = None,
                          hasDocs = False, hasTests = False, hasExamples = False\<rparr>"

text \<open>The value returned by the outer \<open>catch\<close>.\<close>

definition failed :: "failure \<Rightarrow> analysis" where
  "failed e = \<lparr>primaryLanguage = ''unknown'', languages = [], documentationSources = [],
                packageManager = None, projectStructure = default_structure,
                analysis_success = False, analysis_error = Some e\<rparr>"

definition website :: "json \<Rightarrow> doc_source" where
  "website u = \<lparr>source_type = Website, source_link = Some u, source_path = None, priority = 1\<rparr>"

subsection \<open>The facets\<close>

text \<open>
  The homepage: \<open>repoData.homepage && repoData.homepage.includes('http')\<close>. A string is
  searched for \<open>http\<close>, an array for the element \<open>'http'\<close>; any other truthy value has no
  \<open>includes\<close>, and the call raises outside every local \<open>try\<close>.
\<close>

definition homepage_sources :: "json \<Rightarrow> doc_source list outcome" where
  "homepage_sources repoData =
     (case get_prop repoData ''homepage'' of
        None \<Rightarrow> Returns []
      | Some hp \<Rightarrow>
          if \<not> truthy hp then Returns []
          else (case hp of
                  JStr u \<Rightarrow> Returns (if str_includes u ''http'' then [website hp] else [])
                | JArr vs \<Rightarrow> Returns (if JStr ''http'' \<in> set vs then [website hp] else [])
                | _ \<Rightarrow> Throws))"

definition wiki_sources :: "string \<Rightarrow> json \<Rightarrow> doc_source list" where
  "wiki_sources repoUrl repoData =
     (if truthy_opt (get_prop repoData ''has_wiki'')
      then [\<lparr>source_type = Wiki, source_link = Some (JStr (repoUrl @ ''/wiki'')), source_path = None,
             priority = 3\<rparr>]
      else [])"

text \<open>
  The sources read off the readme, inside their \<open>try\<close>: the readme itself, an address for
  each website pattern that matches, an address for each documentation site of the primary
  language that the readme names. For a primary language that is no key of \<open>DOC_SITES\<close>
  there are no sites; for the two names the table inherits, the loop over the sites raises
  as the last statement of the \<open>try\<close>, which leaves the same sources.
\<close>

definition pattern_source :: "string \<Rightarrow> re \<Rightarrow> doc_source list" where
  "pattern_source readmeContent r =
     (case match1 False r readmeContent of
        None \<Rightarrow> []
      | Some matches \<Rightarrow>
          (case match1 False url_in_text (whole matches) of
             None \<Rightarrow> []
           | Some urlMatch \<Rightarrow> [website (JStr (whole urlMatch))]))"

definition site_source :: "string \<Rightarrow> string \<Rightarrow> doc_source list" where
  "site_source readmeContent site =
     (if str_includes readmeContent site then
        (case match1 False (site_url_pattern site) readmeContent of
           None \<Rightarrow> []
         | Some m \<Rightarrow> [website (JStr (whole m))])
      else [])"

definition readme_sources :: "host \<Rightarrow> string \<Rightarrow> string \<Rightarrow> doc_source list" where
  "readme_sources h api lang =
     (case get_text h (api @ ''/readme'') of
        Got readmeContent \<Rightarrow>
          [\<lparr>source_type = Readme, source_link = None, source_path = Some ''README.md'', priority = 2\<rparr>]
          @ concat (map (pattern_source readmeContent) website_patterns)
          @ concat (map (site_source readmeContent)
                      (case map_of DOC_SITES lang of None \<Rightarrow> [] | Some sites \<Rightarrow> sites))
      | _ \<Rightarrow> [])"

text \<open>\<open>xs.some(name => p(name))\<close> where \<open>p\<close> calls a string method of the name: it raises
  at a name that is not a string, unless an earlier name has answered.\<close>

fun some_name :: "(string \<Rightarrow> bool) \<Rightarrow> json option list \<Rightarrow> bool outcome" where
  "some_name p [] = Returns False"
| "some_name p (n # ns) =
     (case n of
        Some (JStr s) \<Rightarrow> if p s then Returns True else some_name p ns
      | _ \<Rightarrow> Throws)"

text \<open>\<open>contents.map(item => item.name)\<close>: it raises when \<open>contents\<close> is no array or an item
  is \<open>null\<close>.\<close>

definition item_names :: "json \<Rightarrow> json option list outcome" where
  "item_names contents =
     (case contents of
        JArr items \<Rightarrow> if JNull \<in> set items then Throws else Returns (map (\<lambda>item. get_prop item ''name'') items)
      | _ \<Rightarrow> Throws)"

text \<open>The loop over the package managers: the first whose file is among the names, or
  \<open>Throws\<close> when a test raised first.\<close>

fun find_manager :: "(string \<times> manager_info) list \<Rightarrow> json option list \<Rightarrow> manager_info option outcome" where
  "find_manager [] fileNames = Returns None"
| "find_manager (entry # entries) fileNames =
     (let file = fst entry in
      case (if str_includes file ''*''
            then some_name (\<lambda>name. endsWith name (replace_first ''*'' [] file)) fileNames
            else Returns (Some (JStr file) \<in> set fileNames)) of
        Throws \<Rightarrow> Throws
      | Returns True \<Rightarrow> Returns (Some (snd entry))
      | Returns False \<Rightarrow> find_manager entries fileNames)"

text \<open>The registry as a source, its address ending in the text of the repository's name;
  \<open>None\<close> when the name has no text and the template literal raises.\<close>

definition registry_source :: "manager_info option \<Rightarrow> json option \<Rightarrow> doc_source list option" where
  "registry_source found_manager repoName =
     (case found_manager of
        None \<Rightarrow> Some []
      | Some info \<Rightarrow>
          map_option (\<lambda>t. [\<lparr>source_type = Registry, source_link = Some (JStr (manager_registry info @ t)),
                                source_path = None, priority = 2\<rparr>])
            (display_opt repoName))"

text \<open>
  The package manager and the sources read off the root listing, inside their \<open>try\<close>: an
  exception ends the block and leaves what it had set and pushed.
\<close>

definition contents_facet :: "host \<Rightarrow> string \<Rightarrow> json option \<Rightarrow> package_manager option \<times> doc_source list" where
  "contents_facet h api repoName =
     (case get_json h (api @ ''/contents'') of
        Got contents \<Rightarrow>
          (case item_names contents of
             Throws \<Rightarrow> (None, [])
           | Returns fileNames \<Rightarrow>
               (case find_manager PACKAGE_MANAGERS fileNames of
                  Throws \<Rightarrow> (None, [])
                | Returns found_manager \<Rightarrow>
                    (let pm = map_option (\<lambda>info. \<lparr>pm_name = manager_name info,
                                                     pm_registry = manager_registry info,
                                                     packageName = repoName\<rparr>) found_manager
                     in case registry_source found_manager repoName of
                          None \<Rightarrow> (pm, [])
                        | Some registry \<Rightarrow>
                     (case some_name (\<lambda>name. toLowerCase name \<in> set [''docs'', ''documentation'', ''doc'', ''api''])
                               fileNames of
                          Throws \<Rightarrow> (pm, registry)
                        | Returns docs \<Rightarrow>
                            (let docs_source =
                                   (if docs then [\<lparr>source_type = SourceDir, source_link = None,
                                                    source_path = Some ''docs/'', priority = 4\<rparr>] else [])
                             in case some_name (\<lambda>name. list_ex (\<lambda>doc. str_includes (toLowerCase name) doc)
                                                   [''javadoc'', ''rustdoc'', ''godoc'', ''yard'', ''doxygen'', ''sphinx''])
                                       fileNames of
                                  Throws \<Rightarrow> (pm, registry @ docs_source)
                                | Returns generated \<Rightarrow>
                                    (pm, registry @ docs_source
                                       @ (if generated then [\<lparr>source_type = Generated, source_link = None,
                                                               source_path = Some ''generated-docs/'',
                                                               priority = 3\<rparr>] else [])))))))
      | _ \<Rightarrow> (None, []))"

subsection \<open>The structure of the project\<close>

text \<open>\<open>item.name.toLowerCase()\<close> for every item, \<open>None\<close> when it raises (an item that is
  \<open>null\<close> or whose name is no string).\<close>

fun lower_names :: "json list \<Rightarrow> string list option" where
  "lower_names [] = Some []"
| "lower_names (item # items) =
     (case get_prop item ''name'' of
        Some (JStr n) \<Rightarrow> map_option (Cons (toLowerCase n)) (lower_names items)
      | _ \<Rightarrow> None)"

definition is_dir :: "json \<Rightarrow> bool" where
  "is_dir item = (get_prop item ''type'' = Some (JStr ''dir''))"

text \<open>The names of the packages, inside their own \<open>try\<close>.\<close>

definition package_names :: "host \<Rightarrow> string \<Rightarrow> json option list option" where
  "package_names h api =
     (case get_json h (api @ ''/contents/packages'') of
        Got (JArr items) \<Rightarrow>
          if JNull \<in> set items then None
          else Some (map (\<lambda>item. get_prop item ''name'') (filter is_dir items))
      | _ \<Rightarrow> None)"

definition determineProjectStructure :: "host \<Rightarrow> string \<Rightarrow> project_structure" where
  "determineProjectStructure h api =
     (case get_json h (api @ ''/contents'') of
        Got (JArr contents) \<Rightarrow>
          (case lower_names contents of
             None \<Rightarrow> default_structure
           | Some fileNames \<Rightarrow>
               (case lower_names (filter is_dir contents) of
                  None \<Rightarrow> default_structure
                | Some dirNames \<Rightarrow>
                    (let isMonorepo = (''lerna.json'' \<in> set fileNames \<or> ''rush.json'' \<in> set fileNames
                                       \<or> ''pnpm-workspace.yaml'' \<in> set fileNames \<or> ''nx.json'' \<in> set fileNames
                                       \<or> ''packages'' \<in> set dirNames);
                         isMultiPackage = (filter (\<lambda>name. name \<in> set [''packages'', ''libs'', ''modules'', ''components''])
                                             dirNames \<noteq> [])
                     in \<lparr>structure_type = (if isMonorepo then Monorepo
                                            else if isMultiPackage then MultiPackage else Standard),
                         mainPath = (if ''src'' \<in> set dirNames then Some ''src/''
                                     else if ''lib'' \<in> set dirNames then Some ''lib/''
                                     else if ''app'' \<in> set dirNames then Some ''app/'' else None),
                         packages = (if isMonorepo \<and> ''packages'' \<in> set dirNames then package_names h api
                                     else None),
                         hasDocs = list_ex (\<lambda>name. name \<in> set [''docs'', ''documentation'', ''doc'', ''api'']) dirNames,
                         hasTests = list_ex (\<lambda>name. name \<in> set [''test'', ''tests'', ''spec'', ''specs'', ''__tests__''])
                                      dirNames,
                         hasExamples = list_ex (\<lambda>name. name \<in> set [''examples'', ''example'', ''demo'', ''demos'',
                                                                    ''samples'']) dirNames\<rparr>)))
      | _ \<Rightarrow> default_structure)"

subsection \<open>The tool\<close>

text \<open>\<open>https://api.github.com/repos/${owner}/${repo}\<close>\<close>

definition repoApiUrl :: "string \<Rightarrow> string" where
  "repoApiUrl address =
     (let parts = split CHR ''/'' (replace_first ''https://github.com/'' [] address)
      in ''https://api.github.com/repos/'' @ part parts 0 @ ''/'' @ part parts 1)"

text \<open>
  \<open>execute\<close>. The shares of the languages (each count divided by the total, times 100,
  rounded, and the list sorted by them) are floating-point arithmetic of the host:
  \<open>language_shares\<close> stands for that computation on the entries of the histogram.
\<close>

definition analyzeRepository ::
  "((string \<times> json) list \<Rightarrow> language_share list) \<Rightarrow> host \<Rightarrow> string \<Rightarrow> analysis" where
  "analyzeRepository language_shares h repoUrl =
     (let api = repoApiUrl repoUrl
      in case fetch h api of
           Rejected msg \<Rightarrow> failed (NetworkError msg)
         | Response status body \<Rightarrow>
             if \<not> is_ok status then failed (MetadataStatus status)
             else (case response_json (Response status body) of
                     Got repoData \<Rightarrow>
                       (case fetch h (api @ ''/languages'') of
                          Rejected msg \<Rightarrow> failed (NetworkError msg)
                        | Response languagesStatus languagesBody \<Rightarrow>
                            (case (case languagesBody of None \<Rightarrow> None | Some b \<Rightarrow> JSON_parse b) of
                               None \<Rightarrow> failed BodyError
                             | Some languagesData \<Rightarrow>
                                 (case object_entries languagesData of
                                    None \<Rightarrow> failed TypeError
                                  | Some entries \<Rightarrow>
                                      if repoData = JNull then failed TypeError
                                      else
                                        (case homepage_sources repoData of
                                           Throws \<Rightarrow> failed TypeError
                                         | Returns homepage \<Rightarrow>
                                             (let shares = language_shares entries;
                                                  lang = (case shares of
                                                            [] \<Rightarrow> ''unknown''
                                                          | first # _ \<Rightarrow>
                                                              or_default (toLowerCase (language_name first)) ''unknown'');
                                                  (pm, listed) = contents_facet h api (get_prop repoData ''name'')
                                              in \<lparr>primaryLanguage = lang, languages = shares,
                                                   documentationSources =
                                                     sort_key priority
                                                       (homepage @ wiki_sources repoUrl repoData
                                                        @ readme_sources h api lang @ listed),
                                                   packageManager = pm,
                                                   projectStructure = determineProjectStructure h api,
                                                   analysis_success = True, analysis_error = None\<rparr>)))))
                   | _ \<Rightarrow> failed BodyError))"

text \<open>A repository whose metadata is served and whose language histogram cannot be
  fetched.\<close>

definition languages_down_host :: host where
  "languages_down_host =
     \<lparr>fetch = (\<lambda>url.
        if url = ''https://api.github.com/repos/o/r'' then Response 200 (Some ''{}'')
        else if url = ''https://api.github.com/repos/o/r/languages'' then Rejected ''fetch failed''
        else Response 404 None),
      buffer_text = (\<lambda>v. None)\<rparr>"

section \<open>The output assembler (generate-output)\<close>

record concept =
  concept_name :: string
  concept_description :: string

record key_api =
  api_signature :: string
  api_description :: string

record usage_pattern =
  pattern :: string
  pattern_description :: string

record output_input =
  repoName :: string
  repoUrl :: string
  purpose :: string
  concepts :: "concept list"
  key_apis :: "key_api list"
  patterns :: "usage_pattern list"

record output_result =
  markdown :: string

text \<open>
  \<open>execute\<close>: the string \<open>markdown\<close> grows by one \<open>+=\<close> after the other; each \<open>for\<close>
  loop is a fold over its list. The calls of the logger leave the string alone and are
  left out.
\<close>

definition generateOutput :: "output_input \<Rightarrow> output_result" where
  "generateOutput i =
     (let markdown = ''## '' @ repoName i @ '' - Condensed Context Index'' @ [nl, nl];
          markdown = markdown @ ''## Overall Purpose'' @ [nl] @ purpose i @ [nl, nl];
          markdown = markdown @ ''## Core Concepts & Capabilities'' @ [nl];
          markdown = foldl (\<lambda>md c. md @ concept_name c @ '' - '' @ concept_description c @ [nl, nl])
                       markdown (concepts i);
          markdown = markdown @ ''## Key APIs / Components / Configuration'' @ [nl];
          markdown = foldl (\<lambda>md a. md @ api_signature a @ '' - '' @ api_description a @ [nl, nl])
                       markdown (key_apis i);
          markdown = markdown @ ''## Common Patterns & Best Practices / Pitfalls'' @ [nl];
          markdown = foldl (\<lambda>md p. md @ pattern p @ '' - '' @ pattern_description p @ [nl, nl])
                       markdown (patterns i);
          markdown = markdown @ ''This index summarizes the core concepts, APIs, and patterns for ''
                       @ repoName i @ ''. Consult the full source documentation ('' @ repoUrl i
                       @ '') for exhaustive details.'' @ [nl]
      in \<lparr>markdown = markdown\<rparr>)"

text \<open>
  The template in the words of the specification: a title, four sections, each a heading
  line and a body, and a closing attribution line. The body of a list section has one
  paragraph \<open>label - description\<close> for each item.
\<close>

definition title_line :: "string \<Rightarrow> string" where
  "title_line name = ''## '' @ name @ '' - Condensed Context Index'' @ [nl, nl]"

definition template_section :: "string \<Rightarrow> string \<Rightarrow> string" where
  "template_section heading_text body = ''## '' @ heading_text @ [nl] @ body"

definition item_paragraphs :: "(string \<times> string) list \<Rightarrow> string" where
  "item_paragraphs items = concat (map (\<lambda>(label, descr). label @ '' - '' @ descr @ [nl, nl]) items)"

definition attribution_line :: "string \<Rightarrow> string \<Rightarrow> string" where
  "attribution_line name url =
     ''This index summarizes the core concepts, APIs, and patterns for '' @ name
     @ ''. Consult the full source documentation ('' @ url @ '') for exhaustive details.'' @ [nl]"

definition four_section_template ::
  "string \<Rightarrow> string \<Rightarrow> string \<Rightarrow> (string \<times> string) list \<Rightarrow> (string \<times> string) list
     \<Rightarrow> (string \<times> string) list \<Rightarrow> string" where
  "four_section_template name url why cs as ps =
     title_line name
     @ template_section ''Overall Purpose'' (why @ [nl, nl])
     @ template_section ''Core Concepts & Capabilities'' (item_paragraphs cs)
     @ template_section ''Key APIs / Components / Configuration'' (item_paragraphs as)
     @ template_section ''Common Patterns & Best Practices / Pitfalls'' (item_paragraphs ps)
     @ attribution_line name url"

section \<open>The worked examples of the specification\<close>

text \<open>Example A: a document with two sections, the second one a one-item list.\<close>

definition example_A_item :: string where
  "example_A_item = ''* '' @ [bq] @ ''foo(x)'' @ [bq] @ '' - does foo''"

definition example_A :: string where
  "example_A = ''# Intro'' @ [nl, nl] @ ''Hello'' @ [nl, nl] @ ''## API'' @ [nl] @ example_A_item @ [nl]"

text \<open>Example B: \<open>{"exports":{".":"./index.js"},"main":"./index.js","types":"./index.d.ts"}\<close>\<close>

definition example_B_members :: string where
  "example_B_members =
     [dq] @ ''exports'' @ [dq] @ '':{'' @ [dq] @ ''.'' @ [dq] @ '':'' @ [dq] @ ''./index.js'' @ [dq] @ ''},''
     @ [dq] @ ''main'' @ [dq] @ '':'' @ [dq] @ ''./index.js'' @ [dq] @ '',''
     @ [dq] @ ''types'' @ [dq] @ '':'' @ [dq] @ ''./index.d.ts'' @ [dq]"

definition example_B :: string where
  "example_B = ''{'' @ example_B_members @ ''}''"

text \<open>The same manifest with a first member \<open>"name":"package.json"\<close>.\<close>

definition example_B_named :: string where
  "example_B_named =
     ''{'' @ [dq] @ ''name'' @ [dq] @ '':'' @ [dq] @ ''package.json'' @ [dq] @ '','' @ example_B_members @ ''}''"

text \<open>A document whose code fence is never closed.\<close>

definition unclosed_example :: string where
  "unclosed_example = ''# A'' @ [nl] @ ''x'' @ [nl] @ fence @ ''js'' @ [nl] @ ''## B'' @ [nl] @ ''[l](u)''"

section \<open>Properties of the parser\<close>

lemma parse_line_in_code:
  "inCodeBlock st \<Longrightarrow> \<not> startsWith (trim l) fence \<Longrightarrow>
   parse_line st l = st\<lparr>currentCodeBlock := currentCodeBlock st @ [l]\<rparr>"
  by (simp add: parse_line_def)

lemma foldl_in_code:
  "inCodeBlock st \<Longrightarrow> \<forall>l \<in> set ls. \<not> startsWith (trim l) fence \<Longrightarrow>
   foldl parse_line st ls = st\<lparr>currentCodeBlock := currentCodeBlock st @ ls\<rparr>"
proof (induction ls arbitrary: st)
  case Nil
  then show ?case by simp
next
  case (Cons l ls)
  have step: "parse_line st l = st\<lparr>currentCodeBlock := currentCodeBlock st @ [l]\<rparr>"
    using Cons.prems by (simp add: parse_line_in_code)
  have "foldl parse_line (parse_line st l) ls =
        (parse_line st l)\<lparr>currentCodeBlock := currentCodeBlock (parse_line st l) @ ls\<rparr>"
    using Cons.prems by (intro Cons.IH) (simp_all add: step)
  then show ?case by (simp add: step)
qed

lemma parse_finish_ignores_code:
  "parse_finish (st\<lparr>inCodeBlock := b, currentCodeBlock := c\<rparr>) = parse_finish st"
  by (cases "currentSection st") (auto simp: parse_finish_def close_section_def)

text \<open>
  C10. When the text opens a code fence that is never closed, the result is the one for the
  lines before the opening fence alone: the opening line and every line after it leave no
  trace in \<open>sections\<close>, \<open>codeBlocks\<close> or \<open>links\<close>.
\<close>

theorem unclosed_fence_dropped:
  assumes "split nl text = before @ opener # after"
    and "\<not> inCodeBlock (parse_lines before)"
    and "startsWith (trim opener) fence"
    and "\<forall>l \<in> set after. \<not> startsWith (trim l) fence"
  shows "parseMarkdown text = parse_finish (parse_lines before)"
proof -
  let ?st = "parse_lines before"
  have open_step: "parse_line ?st opener = ?st\<lparr>inCodeBlock := True\<rparr>"
    using assms(2,3) by (simp add: parse_line_def)
  have "parse_lines (before @ opener # after) = foldl parse_line (?st\<lparr>inCodeBlock := True\<rparr>) after"
    by (simp add: parse_lines_def open_step [unfolded parse_lines_def])
  also have "\<dots> = ?st\<lparr>inCodeBlock := True, currentCodeBlock := currentCodeBlock ?st @ after\<rparr>"
    using assms(4) by (subst foldl_in_code) simp_all
  finally show ?thesis
    by (simp add: parseMarkdown_def assms(1) parse_finish_ignores_code)
qed

theorem unclosed_fence_dropped_witness:
  "parseMarkdown unclosed_example =
     \<lparr>sections = [\<lparr>heading = ''A'', level = 1, content = ''x''\<rparr>], codeBlocks = [], links = []\<rparr>"
proof -
  have lines: "split nl unclosed_example = [''# A'', ''x''] @ (fence @ ''js'') # [''## B'', ''[l](u)'']"
    by code_simp
  have outside: "\<not> inCodeBlock (parse_lines [''# A'', ''x''])"
    by code_simp
  have fenced: "startsWith (trim (fence @ ''js'')) fence"
    by code_simp
  have no_close: "\<forall>l \<in> set [''## B'', ''[l](u)'']. \<not> startsWith (trim l) fence"
    by code_simp
  have before: "parse_finish (parse_lines [''# A'', ''x'']) =
     \<lparr>sections = [\<lparr>heading = ''A'', level = 1, content = ''x''\<rparr>], codeBlocks = [], links = []\<rparr>"
    by code_simp
  show ?thesis
    using unclosed_fence_dropped [OF lines outside fenced no_close] before by simp
qed

section \<open>The matcher consumes text\<close>

lemma one_char_shorter: "t \<in> set (one_char p s) \<Longrightarrow> length (rest t) < length (rest s)"
  by (cases "rest s") (auto simp: one_char_def split: if_splits)

lemma rep_le:
  assumes f: "\<And>s t. t \<in> set (f s) \<Longrightarrow> length (rest t) \<le> length (rest s)"
  shows "t \<in> set (rep f mn mx g s) \<Longrightarrow> length (rest t) \<le> length (rest s)"
proof (induction f mn mx g s arbitrary: t rule: rep.induct)
  case (1 f mn mx greedy s)
  show ?case
  proof (cases "mx = Some 0")
    case True
    with "1.prems" show ?thesis by (simp add: rep.simps)
  next
    case False
    let ?nexts = "filter (\<lambda>t. if mn = 0 then length (rest t) < length (rest s)
                                  else length (rest t) \<le> length (rest s)) (f s)"
    from "1.prems" False have "t = s \<or> (\<exists>u \<in> set ?nexts. t \<in> set (rep f (mn - 1) (map_option (\<lambda>k. k - 1) mx) greedy u))"
      by (subst (asm) rep.simps) (auto simp: Let_def split: if_splits)
    then show ?thesis
    proof
      assume "t = s" then show ?thesis by simp
    next
      assume "\<exists>u \<in> set ?nexts. t \<in> set (rep f (mn - 1) (map_option (\<lambda>k. k - 1) mx) greedy u)"
      then obtain u where u: "u \<in> set ?nexts" and t: "t \<in> set (rep f (mn - 1) (map_option (\<lambda>k. k - 1) mx) greedy u)"
        by blast
      have "length (rest t) \<le> length (rest u)"
        using "1.IH" [OF False refl u t] .
      moreover have "length (rest u) \<le> length (rest s)"
        using u by (auto split: if_splits)
      ultimately show ?thesis by simp
    qed
  qed
qed

lemma rep_lt:
  assumes f: "\<And>s t. t \<in> set (f s) \<Longrightarrow> length (rest t) < length (rest s)"
    and "0 < mn" and "mx \<noteq> Some 0"
    and t: "t \<in> set (rep f mn mx g s)"
  shows "length (rest t) < length (rest s)"
proof -
  from t assms(2,3) obtain u where u: "u \<in> set (f s)"
    and t': "t \<in> set (rep f (mn - 1) (map_option (\<lambda>k. k - 1) mx) g u)"
    by (subst (asm) rep.simps) (auto simp: Let_def split: if_splits)
  have "length (rest t) \<le> length (rest u)"
    using rep_le [OF _ t'] f by (meson less_imp_le)
  with f [OF u] show ?thesis by simp
qed

lemma mt_le: "t \<in> set (mt ml r s) \<Longrightarrow> length (rest t) \<le> length (rest s)"
proof (induction r arbitrary: s t)
  case (Cat a b)
  then show ?case by (fastforce dest: le_trans)
next
  case (Rep mn mx g r)
  then show ?case using rep_le [of "mt ml r"] by simp
qed (auto dest!: one_char_shorter split: option.splits list.splits if_splits)

lemma mt_lt: "\<not> nullable r \<Longrightarrow> t \<in> set (mt ml r s) \<Longrightarrow> length (rest t) < length (rest s)"
proof (induction r arbitrary: s t)
  case (Cat a b)
  from Cat.prems(2) obtain u where u: "u \<in> set (mt ml a s)" and t: "t \<in> set (mt ml b u)"
    by auto
  from Cat.prems(1) consider "\<not> nullable a" | "\<not> nullable b" by auto
  then show ?case
  proof cases
    case 1
    with Cat.IH(1) u have "length (rest u) < length (rest s)" by blast
    with mt_le [OF t] show ?thesis by simp
  next
    case 2
    with Cat.IH(2) t have "length (rest t) < length (rest u)" by blast
    with mt_le [OF u] show ?thesis by simp
  qed
next
  case (Rep mn mx g r)
  then show ?case using rep_lt [of "mt ml r" mn mx t g s] by auto
qed (auto dest!: one_char_shorter)

lemma find_from_shorter:
  "\<not> nullable r \<Longrightarrow> find_from ml r p cs = Some m \<Longrightarrow> length (m_rest m) < length cs"
proof (induction cs arbitrary: p)
  case Nil
  show ?case
  proof (cases "mt ml r \<lparr>prev = p, rest = [], caps = []\<rparr>")
    case Nil
    with Nil.prems show ?thesis by simp
  next
    case (Cons t ts)
    then have "t \<in> set (mt ml r \<lparr>prev = p, rest = [], caps = []\<rparr>)" by simp
    from mt_lt [OF Nil.prems(1) this] show ?thesis by simp
  qed
next
  case (Cons c cs)
  show ?case
  proof (cases "mt ml r \<lparr>prev = p, rest = c # cs, caps = []\<rparr>")
    case Nil
    with Cons.prems have "find_from ml r (Some c) cs = Some m" by simp
    from Cons.IH [OF Cons.prems(1) this] show ?thesis by simp
  next
    case (Cons t ts)
    then have "t \<in> set (mt ml r \<lparr>prev = p, rest = c # cs, caps = []\<rparr>)" by simp
    from mt_lt [OF Cons.prems(1) this] Cons Cons.prems(2) show ?thesis by auto
  qed
qed

lemma exec_loop_returns:
  "\<not> nullable r \<Longrightarrow> \<exists>ms. exec_loop ml r p cs = Some ms"
proof (induction ml r p cs rule: exec_loop.induct)
  case (1 ml r p cs)
  show ?case
  proof (cases "find_from ml r p cs")
    case None
    then show ?thesis by (simp add: exec_loop.simps)
  next
    case (Some m)
    have short: "length (m_rest m) < length cs"
      using find_from_shorter [OF "1.prems" Some] .
    from "1.IH" [OF Some short "1.prems"] obtain ms where "exec_loop ml r (m_prev m) (m_rest m) = Some ms" ..
    with Some short show ?thesis by (subst exec_loop.simps) simp
  qed
qed

lemma exec_all_returns: "\<not> nullable r \<Longrightarrow> \<exists>ms. exec_all ml r s = Some ms"
  by (simp add: exec_all_def exec_loop_returns)

lemma those_returns: "\<forall>x \<in> set xs. \<exists>y. x = Some y \<Longrightarrow> \<exists>ys. those xs = Some ys"
  by (induction xs) auto

lemma in_turn_returns: "\<forall>p \<in> set ps. \<exists>found. p = Some found \<Longrightarrow> \<exists>found. in_turn ps = Some found"
  using those_returns [of ps] by (auto simp: in_turn_def)

lemma scan_returns: "\<not> nullable r \<Longrightarrow> \<exists>found. scan ml r s body = Some found"
  using exec_all_returns [of r ml s] by (auto simp: scan_def)

lemma scan_nested_returns:
  assumes "\<not> nullable r" and "\<And>m. \<exists>found. body m = Some found"
  shows "\<exists>found. scan_nested ml r s body = Some found"
proof -
  from exec_all_returns [OF assms(1)] obtain ms where ms: "exec_all ml r s = Some ms" ..
  have "\<exists>ys. those (map body ms) = Some ys"
    using assms(2) by (intro those_returns) auto
  with ms show ?thesis by (auto simp: scan_nested_def)
qed

lemma scans_return:
  "\<forall>r \<in> set rs. \<not> nullable r \<Longrightarrow> \<exists>found. in_turn (map (\<lambda>r. scan ml r s body) rs) = Some found"
  by (intro in_turn_returns) (auto simp: scan_returns)

subsection \<open>No pattern of the extractor matches the empty string\<close>

lemmas re_defs = seq_def lit_def star_def lazy_star_def many1_def opt_def one_of_def none_of_def
  kw_def params_def w_def ws_def digit_def ident_start_def dash_def js_ident_def fence_def
  java_visibility_def cs_visibility_def

lemma markdown_patterns_consume:
  "\<not> nullable codeBlockRegex" "\<forall>r \<in> set functionPatterns. \<not> nullable r"
  "\<forall>r \<in> set inlinePatterns. \<not> nullable r" "\<forall>r \<in> set listPatterns. \<not> nullable r"
  "\<not> nullable tableRowRegex" "\<not> nullable headerRegex"
  by (simp_all add: codeBlockRegex_def functionPatterns_def inlinePatterns_def listPatterns_def
      tableRowRegex_def headerRegex_def re_defs)

lemma source_patterns_consume:
  "\<not> nullable ts_exportRegex" "\<not> nullable ts_methodRegex" "\<not> nullable ts_propertyRegex"
  "\<not> nullable js_functionRegex" "\<not> nullable js_arrowRegex" "\<not> nullable js_methodRegex"
  "\<not> nullable js_classMethodRegex"
  "\<not> nullable py_classRegex" "\<not> nullable py_functionRegex" "\<not> nullable py_decoratorRegex"
  "\<not> nullable java_classRegex" "\<not> nullable java_interfaceRegex" "\<not> nullable java_methodRegex"
  "\<not> nullable (rust_itemRegex item)" "\<not> nullable rust_fnRegex"
  "\<not> nullable go_funcRegex" "\<not> nullable go_typeRegex"
  "\<not> nullable rb_classRegex" "\<not> nullable rb_moduleRegex" "\<not> nullable rb_methodRegex"
  "\<not> nullable (cpp_itemRegex item)" "\<not> nullable cpp_templateRegex"
  "\<not> nullable cs_classRegex" "\<not> nullable cs_interfaceRegex" "\<not> nullable cs_methodRegex"
  "\<not> nullable php_classRegex" "\<not> nullable php_functionRegex"
  by (simp_all add: ts_exportRegex_def ts_methodRegex_def ts_propertyRegex_def
      js_functionRegex_def js_arrowRegex_def js_methodRegex_def js_classMethodRegex_def
      py_classRegex_def py_functionRegex_def py_decoratorRegex_def
      java_classRegex_def java_interfaceRegex_def java_methodRegex_def
      rust_itemRegex_def rust_fnRegex_def go_funcRegex_def go_typeRegex_def
      rb_classRegex_def rb_moduleRegex_def rb_methodRegex_def
      cpp_itemRegex_def cpp_templateRegex_def
      cs_classRegex_def cs_interfaceRegex_def cs_methodRegex_def
      php_classRegex_def php_functionRegex_def re_defs)

subsection \<open>Every scanning loop of the extractor returns\<close>

lemma markdown_apis_returns: "\<exists>found. markdown_apis text = Some found"
proof -
  have code: "\<exists>found. code_block_apis b = Some found" for b
    unfolding code_block_apis_def by (rule scans_return) (rule markdown_patterns_consume)
  have "\<exists>found. scan_nested False codeBlockRegex text (\<lambda>m. code_block_apis (grp_str m 1)) = Some found"
    by (rule scan_nested_returns) (simp_all add: markdown_patterns_consume code)
  moreover have "\<exists>found. inline_apis text = Some found"
    unfolding inline_apis_def by (rule scans_return) (rule markdown_patterns_consume)
  moreover have "\<exists>found. list_apis text = Some found"
    unfolding list_apis_def by (rule scans_return) (rule markdown_patterns_consume)
  moreover have "\<exists>found. table_apis text = Some found"
    unfolding table_apis_def by (rule scan_returns) (rule markdown_patterns_consume)
  moreover have "\<exists>found. header_apis text = Some found"
    unfolding header_apis_def by (rule scan_returns) (rule markdown_patterns_consume)
  ultimately show ?thesis
    unfolding markdown_apis_def by (intro in_turn_returns) auto
qed

lemma ts_apis_returns: "\<exists>found. ts_apis text = Some found"
proof -
  have "\<exists>found. in_turn
        [scan False ts_methodRegex text (\<lambda>m.
           [\<lparr>signature = grp_str m 1 @ grp_or m 2 [] @ ''('' @ grp_str m 3 @ '')'',
             description = ''Returns '' @ trim (grp_str m 4), category = ''function''\<rparr>]),
         scan False ts_propertyRegex text (\<lambda>m.
           [\<lparr>signature = grp_str m 1 @ ''('' @ grp_str m 2 @ '')'',
             description = ''Returns '' @ trim (grp_str m 3), category = ''method''\<rparr>])] = Some found"
    by (intro in_turn_returns) (simp add: scan_returns source_patterns_consume)
  moreover obtain ms where "exec_all False ts_exportRegex text = Some ms"
    using exec_all_returns [OF source_patterns_consume(1)] by blast
  ultimately show ?thesis
    unfolding ts_apis_def by auto
qed

lemma source_apis_return:
  "\<exists>found. js_apis text = Some found" "\<exists>found. py_apis text = Some found"
  "\<exists>found. java_apis text = Some found" "\<exists>found. rust_apis text = Some found"
  "\<exists>found. go_apis text = Some found" "\<exists>found. rb_apis text = Some found"
  "\<exists>found. cpp_apis text = Some found" "\<exists>found. cs_apis text = Some found"
  "\<exists>found. php_apis text = Some found"
  unfolding js_apis_def py_apis_def java_apis_def rust_apis_def go_apis_def rb_apis_def
    cpp_apis_def cs_apis_def php_apis_def
  by (intro in_turn_returns; simp add: scan_returns source_patterns_consume)+

lemma extract_raw_returns: "\<exists>raw. extract_raw text contentType = Some raw"
  using markdown_apis_returns [of "text"] ts_apis_returns [of "text"] source_apis_return [of "text"]
  unfolding extract_raw_def by simp

subsection \<open>The closing loop keeps first occurrences\<close>

lemma dedup_first_occurrences:
  "dedup seen uniqueApis xs =
     uniqueApis @ first_occurrences (filter (\<lambda>a. signature a \<notin> seen) xs)"
proof (induction xs arbitrary: seen uniqueApis)
  case Nil
  show ?case by simp
next
  case (Cons a as)
  have "filter (\<lambda>b. signature b \<noteq> signature a) (filter (\<lambda>b. signature b \<notin> seen) as) =
        filter (\<lambda>b. signature b \<notin> insert (signature a) seen) as"
    by (induction as) auto
  then show ?case by (simp add: Cons.IH)
qed

lemma first_occurrences_subset: "set (first_occurrences xs) \<subseteq> set xs"
  by (induction xs rule: first_occurrences.induct) auto

lemma first_occurrences_distinct: "distinct (map signature (first_occurrences xs))"
proof (induction xs rule: first_occurrences.induct)
  case 1
  show ?case by simp
next
  case (2 a as)
  have "signature a \<notin> signature ` set (first_occurrences (filter (\<lambda>b. signature b \<noteq> signature a) as))"
    using first_occurrences_subset [of "filter (\<lambda>b. signature b \<noteq> signature a) as"] by auto
  with 2 show ?case by simp
qed

lemma first_occurrences_signatures:
  "signature ` set (first_occurrences xs) = signature ` set xs"
proof (induction xs rule: first_occurrences.induct)
  case 1
  show ?case by simp
next
  case (2 a as)
  have "signature ` set as \<subseteq> insert (signature a) (signature ` set (filter (\<lambda>b. signature b \<noteq> signature a) as))"
    by auto
  with 2 show ?case by auto
qed

lemma first_occurrences_fixed:
  "distinct (map signature xs) \<Longrightarrow> first_occurrences xs = xs"
proof (induction xs)
  case Nil
  show ?case by simp
next
  case (Cons a as)
  from Cons.prems have "signature a \<notin> signature ` set as"
    by simp
  then have "\<forall>b \<in> set as. signature b \<noteq> signature a"
    by (metis image_eqI)
  then have "filter (\<lambda>b. signature b \<noteq> signature a) as = as"
    by (rule filter_True)
  with Cons show ?case by simp
qed

text \<open>
  C3. Every call of the extractor returns, for every content and content type. The list it
  returns is the list of first occurrences of the signatures pushed, in the order of the
  pushes: no two entries share a signature, every signature pushed is there, and running
  the closing loop on the list again leaves it as it is. The result is a function of the
  content and the content type alone (every pattern is made afresh in each call), so a
  second call on the same input returns the same list.
\<close>

theorem extraction_deduplicated:
  "\<exists>raw r. extract_raw text contentType = Some raw
     \<and> extractAllApis text contentType = Some r
     \<and> success r
     \<and> apis r = first_occurrences raw
     \<and> distinct (map signature (apis r))
     \<and> signature ` set (apis r) = signature ` set raw
     \<and> dedup {} [] (apis r) = apis r"
proof -
  obtain raw where raw: "extract_raw text contentType = Some raw"
    using extract_raw_returns by blast
  let ?r = "\<lparr>apis = dedup {} [] raw, success = True\<rparr>"
  have unique: "dedup {} [] raw = first_occurrences raw"
    by (simp add: dedup_first_occurrences)
  have again: "dedup {} [] (first_occurrences raw) = first_occurrences raw"
    by (simp add: dedup_first_occurrences first_occurrences_fixed first_occurrences_distinct)
  have "extractAllApis text contentType = Some ?r"
    by (simp add: extractAllApis_def raw)
  with raw unique again show ?thesis
    by (simp add: first_occurrences_distinct first_occurrences_signatures)
qed

section \<open>The retriever stays within its budget\<close>

lemma budget_nothing: "in_budget maxFiles []"
  by (simp add: in_budget_def split: number.splits)

lemma budget_push_less: "length_lt fs maxFiles \<Longrightarrow> in_budget maxFiles (fs @ [f])"
proof (cases maxFiles)
  case (Finite q)
  assume "length_lt fs maxFiles"
  with Finite have "of_int (int (length fs)) < q"
    by (simp add: length_lt_def)
  then have "int (length fs) < \<lceil>q\<rceil>"
    by (simp only: less_ceiling_iff)
  with Finite show ?thesis
    by (simp add: in_budget_def)
qed (simp_all add: in_budget_def length_lt_def)

lemma budget_push: "\<not> length_ge fs maxFiles \<Longrightarrow> in_budget maxFiles (fs @ [f])"
proof (cases maxFiles)
  case (Finite q)
  assume "\<not> length_ge fs maxFiles"
  with Finite have "length_lt fs maxFiles"
    by (simp add: length_ge_def length_lt_def)
  then show ?thesis
    by (rule budget_push_less)
qed (simp_all add: in_budget_def length_ge_def)

lemma candidate_loop_budget:
  "in_budget maxFiles fs \<Longrightarrow> in_budget maxFiles (candidate_loop h maxFiles branchUrl ps fs)"
  by (induction ps arbitrary: fs) (auto simp: budget_push split: got.splits)

lemma docs_files_budget:
  "in_budget maxFiles fs \<Longrightarrow> in_budget maxFiles (fst (docs_files h maxFiles dir entries fs))"
  by (induction entries arbitrary: fs) (auto simp: budget_push Let_def split: got.splits entry_test.splits)

lemma docs_dirs_budget:
  "in_budget maxFiles fs \<Longrightarrow> in_budget maxFiles (docs_dirs h maxFiles api dirs fs)"
proof (induction dirs arbitrary: fs)
  case Nil
  then show ?case by simp
next
  case (Cons dir dirs)
  show ?case
    using Cons.prems Cons.IH docs_files_budget [OF Cons.prems, of h dir]
    by (auto split: got.splits option.splits prod.splits bool.splits) (metis fst_conv)+
qed

lemma docs_pass_budget:
  "in_budget maxFiles fs \<Longrightarrow> in_budget maxFiles (docs_pass h maxFiles searchType api fs)"
  by (auto simp: docs_pass_def docs_dirs_budget split: got.splits)

lemma types_files_budget:
  "in_budget maxFiles fs \<Longrightarrow> in_budget maxFiles (fst (types_files h maxFiles location entries fs))"
  by (induction entries arbitrary: fs) (auto simp: budget_push split: got.splits entry_test.splits)

lemma types_dirs_budget:
  "in_budget maxFiles fs \<Longrightarrow> in_budget maxFiles (types_dirs h maxFiles api locations fs)"
proof (induction locations arbitrary: fs)
  case Nil
  then show ?case by simp
next
  case (Cons location locations)
  show ?case
    using Cons.prems Cons.IH types_files_budget [OF Cons.prems, of h location]
    by (auto split: got.splits json.splits prod.splits bool.splits) (metis fst_conv)+
qed

lemma types_pass_budget:
  "in_budget maxFiles fs \<Longrightarrow> in_budget maxFiles (types_pass h maxFiles searchType api fs)"
  by (auto simp: types_pass_def types_dirs_budget)

lemma package_files_budget:
  "in_budget maxFiles fs \<Longrightarrow> in_budget maxFiles (fst (package_files h maxFiles pkgName entries fs))"
  by (induction entries arbitrary: fs) (auto simp: budget_push Let_def split: got.splits option.splits)

lemma packages_loop_budget:
  "in_budget maxFiles fs \<Longrightarrow> in_budget maxFiles (packages_loop h maxFiles api pkgs fs)"
proof (induction pkgs arbitrary: fs)
  case Nil
  then show ?case by simp
next
  case (Cons pkg pkgs)
  have pushed: "\<not> length_ge fs maxFiles \<Longrightarrow> in_budget maxFiles (fs @ [f])" for f
    by (rule budget_push)
  show ?case
    using Cons.prems Cons.IH pushed package_files_budget [of maxFiles _ h]
    by (auto simp: Let_def split: got.splits option.splits response.splits prod.splits bool.splits)
       (metis fst_conv)+
qed

lemma monorepo_pass_budget:
  "in_budget maxFiles fs \<Longrightarrow> in_budget maxFiles (monorepo_pass h maxFiles searchType api fs)"
  by (auto simp: monorepo_pass_def packages_loop_budget split: got.splits option.splits)

lemma main_fetch_budget:
  "in_budget maxFiles fs \<Longrightarrow> main_fetch h maxFiles branchUrl mainFile fs = Some fs' \<Longrightarrow>
   in_budget maxFiles fs'"
  by (auto simp: main_fetch_def budget_push_less split: if_splits option.splits json.splits got.splits)

lemma types_fetch_budget:
  "in_budget maxFiles fs \<Longrightarrow> types_fetch h maxFiles branchUrl typesFile fs = Some fs' \<Longrightarrow>
   in_budget maxFiles fs'"
  by (auto simp: types_fetch_def budget_push_less split: if_splits option.splits got.splits)

lemma manifest_pass_budget:
  "in_budget maxFiles fs \<Longrightarrow> in_budget maxFiles (manifest_pass h maxFiles searchType branchUrl fs)"
  by (auto simp: manifest_pass_def Let_def split: option.splits
           dest: main_fetch_budget types_fetch_budget)

lemma all_passes_budget: "in_budget maxFiles (all_passes h maxFiles searchType api branchUrl)"
  unfolding all_passes_def
  by (intro manifest_pass_budget monorepo_pass_budget types_pass_budget docs_pass_budget
      candidate_loop_budget) (rule budget_nothing)


lemma fetchAllDocs_budget:
  "in_budget (case maxFilesArg of None \<Rightarrow> Finite 50 | Some n \<Rightarrow> n)
          (files (fetchAllDocs h address searchTypeArg maxFilesArg))"
  by (auto simp: fetchAllDocs_def Let_def all_passes_budget budget_nothing split: sum.splits)

text \<open>
  C4, amended. Every push, in the pass over the ranked candidate paths, the documentation
  directories, the type-definition directories, the packages of a monorepo and the files
  named by the manifest, comes after a test that the list is still shorter than
  \<open>maxFiles\<close>. So with a finite \<open>maxFiles\<close> one call of the retriever returns at most as
  many entries as the least whole number that is not below \<open>maxFiles\<close>, and none when
  \<open>maxFiles\<close> is negative; with a whole \<open>maxFiles = N\<close> that is at most \<open>N\<close> entries;
  with no \<open>maxFiles\<close> given, at most 50; with minus infinity, none.
\<close>

theorem phase_budget:
  "int (length (files (fetchAllDocs h address searchType (Some (Finite q))))) \<le> max 0 \<lceil>q\<rceil>
   \<and> int (length (files (fetchAllDocs h address searchType (Some (Finite (of_int N)))))) \<le> max 0 N
   \<and> length (files (fetchAllDocs h address searchType None)) \<le> 50
   \<and> files (fetchAllDocs h address searchType (Some MinusInfinity)) = []"
  using fetchAllDocs_budget [of "Some (Finite q)" h address searchType]
    fetchAllDocs_budget [of "Some (Finite (of_int N))" h address searchType]
    fetchAllDocs_budget [of None h address searchType]
    fetchAllDocs_budget [of "Some MinusInfinity" h address searchType]
  by (simp add: in_budget_def)

section \<open>The denylist\<close>

lemma path_candidate_file [simp]: "path (candidate_file p c) = p"
  by (simp add: candidate_file_def Let_def)

lemma path_docs_file [simp]: "path (docs_file filePath name c) = filePath"
  by (simp add: docs_file_def Let_def)

lemma candidate_loop_denylist:
  "off_denylist fs \<Longrightarrow> off_denylist (candidate_loop h maxFiles branchUrl ps fs)"
  by (induction ps arbitrary: fs) (auto simp: off_denylist_def split: got.splits)

lemma docs_files_denylist:
  "off_denylist fs \<Longrightarrow> off_denylist (fst (docs_files h maxFiles dir entries fs))"
  by (induction entries arbitrary: fs)
     (auto simp: off_denylist_def Let_def split: got.splits entry_test.splits)

lemma docs_dirs_denylist:
  "off_denylist fs \<Longrightarrow> off_denylist (docs_dirs h maxFiles api dirs fs)"
proof (induction dirs arbitrary: fs)
  case Nil
  then show ?case by simp
next
  case (Cons dir dirs)
  show ?case
    using Cons.prems Cons.IH docs_files_denylist [OF Cons.prems, of h maxFiles dir]
    by (auto split: got.splits option.splits prod.splits bool.splits) (metis fst_conv)+
qed

lemma docs_pass_denylist:
  "off_denylist fs \<Longrightarrow> off_denylist (docs_pass h maxFiles searchType api fs)"
  by (auto simp: docs_pass_def docs_dirs_denylist split: got.splits)

lemma changelog_md_upper: "toUpperCase ''CHANGELOG.md'' = ''CHANGELOG.MD''"
  by code_simp

lemma not_skipped_no_changelog_md:
  "\<not> shouldSkipFile p \<Longrightarrow> \<not> str_includes (toUpperCase p) ''CHANGELOG.MD''"
  using changelog_md_upper by (auto simp: shouldSkipFile_def SKIP_FILES_def Let_def)

lemma docs_phase_passes:
  "all_passes h maxFiles Docs api branchUrl =
     docs_pass h maxFiles Docs api (candidate_loop h maxFiles branchUrl (docPaths Docs) [])"
  by (simp add: all_passes_def manifest_pass_def monorepo_pass_def types_pass_def)


section \<open>The retriever on the example hosts\<close>

lemma get_text_static:
  "get_text (static_host pages) url = (case map_of pages url of None \<Rightarrow> NotOk | Some b \<Rightarrow> Got b)"
  by (simp add: get_text_def static_host_def response_text_def is_ok_def split: option.splits)

lemma get_json_static:
  "get_json (static_host pages) url =
     (case map_of pages url of
        None \<Rightarrow> NotOk
      | Some b \<Rightarrow> (case JSON_parse b of None \<Rightarrow> Raised | Some v \<Rightarrow> Got v))"
  by (simp add: get_json_def static_host_def response_json_def response_text_def is_ok_def
      split: option.splits)

lemma candidate_loop_nothing:
  "\<forall>p \<in> set ps. get_text h (branchUrl @ ''/'' @ p) = NotOk \<Longrightarrow> candidate_loop h maxFiles branchUrl ps fs = fs"
  by (induction ps) auto

lemma resolve_branch_static:
  "map_of pages (''https://raw.githubusercontent.com/o/r/main/README.md'') = None \<Longrightarrow>
   map_of pages (''https://raw.githubusercontent.com/o/r/master/README.md'') = None \<Longrightarrow>
   resolve_branch (static_host pages) ''https://raw.githubusercontent.com/o/r'' [''main'', ''master''] = Inr ''main''"
  by (simp add: static_host_def is_ok_def)

lemma repo_addresses:
  "''https://api.github.com/repos/''
     @ part (split CHR ''/'' (replace_first ''https://github.com/'' [] ''https://github.com/o/r'')) 0 @ ''/''
     @ part (split CHR ''/'' (replace_first ''https://github.com/'' [] ''https://github.com/o/r'')) 1
   = ''https://api.github.com/repos/o/r''"
  "strip_slash (replace_first ''github.com'' ''raw.githubusercontent.com'' ''https://github.com/o/r'')
     = ''https://raw.githubusercontent.com/o/r''"
  by code_simp+

lemma fetchAllDocs_o_r:
  assumes "map_of pages (''https://raw.githubusercontent.com/o/r/main/README.md'') = None"
    and "map_of pages (''https://raw.githubusercontent.com/o/r/master/README.md'') = None"
  shows "files (fetchAllDocs (static_host pages) ''https://github.com/o/r'' (Some searchType) (Some maxFiles)) =
     all_passes (static_host pages) maxFiles searchType ''https://api.github.com/repos/o/r''
       ''https://raw.githubusercontent.com/o/r/main''"
  unfolding fetchAllDocs_def Let_def repo_addresses resolve_branch_static [OF assms]
  by simp

lemma changelog_listing:
  "JSON_parse (listing_of ''CHANGELOG.rst'' ''https://files.example/CHANGELOG.rst'') =
     Some (JArr [JObj [(''type'', JStr ''file''), (''name'', JStr ''CHANGELOG.rst''),
                       (''download_url'', JStr ''https://files.example/CHANGELOG.rst'')]])"
  by code_simp

lemma changelog_rst_passes: "\<not> shouldSkipFile ''docs/CHANGELOG.rst''"
  by code_simp

lemma changelog_docs_file:
  "docs_file ''docs/CHANGELOG.rst'' ''CHANGELOG.rst'' ''changes'' =
     \<lparr>path = ''docs/CHANGELOG.rst'', file_content = ''changes'', file_type = ''rst'',
      estimatedTokens = Some 2, truncated = False, originalSize = None, largeFile = False\<rparr>"
  by code_simp

lemma changelog_candidates:
  "candidate_loop changelog_host maxFiles ''https://raw.githubusercontent.com/o/r/main'' ps [] = []"
  by (rule candidate_loop_nothing) (simp add: changelog_host_def get_text_static)

lemma changelog_docs_dirs:
  "docs_dirs changelog_host (Finite 50) ''https://api.github.com/repos/o/r'' docDirs [] =
     [docs_file ''docs/CHANGELOG.rst'' ''CHANGELOG.rst'' ''changes'']"
  by (simp add: docDirs_def changelog_host_def get_json_static get_text_static changelog_listing
      named_file_def download_def display_opt_def endsWith_def changelog_rst_passes length_ge_def)

lemma changelog_files:
  "files (fetchAllDocs changelog_host ''https://github.com/o/r'' (Some Docs) (Some (Finite 50))) =
     [\<lparr>path = ''docs/CHANGELOG.rst'', file_content = ''changes'', file_type = ''rst'',
       estimatedTokens = Some 2, truncated = False, originalSize = None, largeFile = False\<rparr>]"
proof -
  have "files (fetchAllDocs changelog_host ''https://github.com/o/r'' (Some Docs) (Some (Finite 50))) =
     all_passes changelog_host (Finite 50) Docs ''https://api.github.com/repos/o/r''
       ''https://raw.githubusercontent.com/o/r/main''"
    unfolding changelog_host_def by (rule fetchAllDocs_o_r) simp_all
  also have "\<dots> = docs_dirs changelog_host (Finite 50) ''https://api.github.com/repos/o/r'' docDirs []"
    by (simp add: all_passes_def manifest_pass_def monorepo_pass_def types_pass_def
        changelog_candidates docs_pass_def length_lt_def)
       (simp add: changelog_host_def get_json_static)
  finally show ?thesis by (simp add: changelog_docs_dirs changelog_docs_file)
qed

lemma big_listing:
  "JSON_parse (listing_of ''big.d.ts'' ''https://files.example/big.d.ts'') =
     Some (JArr [JObj [(''type'', JStr ''file''), (''name'', JStr ''big.d.ts''),
                       (''download_url'', JStr ''https://files.example/big.d.ts'')]])"
  by code_simp

lemma big_candidates:
  "candidate_loop (big_types_host big) maxFiles ''https://raw.githubusercontent.com/o/r/main'' ps [] = []"
  by (rule candidate_loop_nothing) (simp add: big_types_host_def get_text_static)

lemma big_types_dirs:
  "types_dirs (big_types_host big) (Finite 50) ''https://api.github.com/repos/o/r'' typeLocations [] =
     [plain_file ''big.d.ts'' big ''d.ts'']"
  by (simp add: typeLocations_def big_types_host_def get_json_static get_text_static big_listing
      named_file_def download_def display_opt_def endsWith_def length_ge_def)

lemma big_files:
  "files (fetchAllDocs (big_types_host big) ''https://github.com/o/r'' (Some Types) (Some (Finite 50))) =
     [plain_file ''big.d.ts'' big ''d.ts'']"
proof -
  have "files (fetchAllDocs (big_types_host big) ''https://github.com/o/r'' (Some Types) (Some (Finite 50))) =
     all_passes (big_types_host big) (Finite 50) Types ''https://api.github.com/repos/o/r''
       ''https://raw.githubusercontent.com/o/r/main''"
    unfolding big_types_host_def by (rule fetchAllDocs_o_r) simp_all
  also have "\<dots> = monorepo_pass (big_types_host big) (Finite 50) Types ''https://api.github.com/repos/o/r''
       (types_dirs (big_types_host big) (Finite 50) ''https://api.github.com/repos/o/r'' typeLocations [])"
    by (simp add: all_passes_def manifest_pass_def types_pass_def big_candidates docs_pass_def
        length_lt_def)
  also have "\<dots> = [plain_file ''big.d.ts'' big ''d.ts'']"
    by (simp add: big_types_dirs monorepo_pass_def length_lt_def)
       (simp add: big_types_host_def get_json_static)
  finally show ?thesis .
qed

lemma guides_listing:
  "JSON_parse (listing_of_two ''guide.md'' ''https://files.example/guide.md''
                              ''intro.md'' ''https://files.example/intro.md'') =
     Some (JArr [JObj [(''type'', JStr ''file''), (''name'', JStr ''guide.md''),
                       (''download_url'', JStr ''https://files.example/guide.md'')],
                 JObj [(''type'', JStr ''file''), (''name'', JStr ''intro.md''),
                       (''download_url'', JStr ''https://files.example/intro.md'')]])"
  by code_simp

lemma guides_pass: "\<not> shouldSkipFile ''docs/guide.md''" "\<not> shouldSkipFile ''docs/intro.md''"
  by code_simp+

lemma guides_candidates:
  "candidate_loop guides_host maxFiles ''https://raw.githubusercontent.com/o/r/main'' ps [] = []"
  by (rule candidate_loop_nothing) (simp add: guides_host_def get_text_static)

lemma guides_docs_dirs:
  "docs_dirs guides_host (Finite (3 / 2)) ''https://api.github.com/repos/o/r'' docDirs [] =
     [docs_file ''docs/guide.md'' ''guide.md'' ''guide'', docs_file ''docs/intro.md'' ''intro.md'' ''intro'']"
  by (simp add: docDirs_def guides_host_def get_json_static get_text_static guides_listing
      named_file_def download_def display_opt_def endsWith_def guides_pass length_ge_def)

lemma guides_files:
  "files (fetchAllDocs guides_host ''https://github.com/o/r'' (Some Docs) (Some (Finite (3 / 2)))) =
     [docs_file ''docs/guide.md'' ''guide.md'' ''guide'', docs_file ''docs/intro.md'' ''intro.md'' ''intro'']"
proof -
  have "files (fetchAllDocs guides_host ''https://github.com/o/r'' (Some Docs) (Some (Finite (3 / 2)))) =
     all_passes guides_host (Finite (3 / 2)) Docs ''https://api.github.com/repos/o/r''
       ''https://raw.githubusercontent.com/o/r/main''"
    unfolding guides_host_def by (rule fetchAllDocs_o_r) simp_all
  also have "\<dots> = docs_dirs guides_host (Finite (3 / 2)) ''https://api.github.com/repos/o/r'' docDirs []"
    by (simp add: all_passes_def manifest_pass_def monorepo_pass_def types_pass_def
        guides_candidates docs_pass_def length_lt_def)
       (simp add: guides_host_def get_json_static)
  finally show ?thesis by (simp add: guides_docs_dirs)
qed

text \<open>
  C4, as stated, fails for a \<open>maxFiles\<close> that is not whole: with \<open>maxFiles = 1.5\<close>, in the
  docs phase, for a repository whose \<open>docs\<close> directory lists \<open>guide.md\<close> and \<open>intro.md\<close>,
  the retriever returns two entries.
\<close>

theorem fractional_budget_counterexample:
  "map path (files (fetchAllDocs guides_host ''https://github.com/o/r'' (Some Docs) (Some (Finite (3 / 2)))))
     = [''docs/guide.md'', ''docs/intro.md'']"
  by (simp add: guides_files)

text \<open>
  C5, as stated, fails: in the docs phase, for a repository whose \<open>docs\<close> directory lists
  \<open>CHANGELOG.rst\<close>, the retriever returns the entry \<open>docs/CHANGELOG.rst\<close>.
\<close>

theorem changelog_counterexample:
  "map path (files (fetchAllDocs changelog_host ''https://github.com/o/r'' (Some Docs) (Some (Finite 50))))
     = [''docs/CHANGELOG.rst'']
   \<and> str_includes ''docs/CHANGELOG.rst'' ''CHANGELOG''"
  by (simp add: changelog_files)

text \<open>
  C5, amended. No entry fetched from a ranked candidate path or from a documentation
  directory, so no entry at all of the docs phase, has a path that contains an entry
  of the denylist in any letter case; in particular none contains \<open>CHANGELOG.md\<close> in any
  letter case. (A path that contains \<open>CHANGELOG\<close> and not \<open>CHANGELOG.md\<close> is not on the
  denylist.)
\<close>

theorem denylist_enforced:
  "(\<forall>f \<in> set (docs_pass h maxFiles searchType api (candidate_loop h maxFiles branchUrl (docPaths searchType) [])).
      \<not> shouldSkipFile (path f) \<and> \<not> str_includes (toUpperCase (path f)) ''CHANGELOG.MD'')
   \<and> (\<forall>f \<in> set (files (fetchAllDocs h address (Some Docs) maxFilesArg)).
      \<not> shouldSkipFile (path f) \<and> \<not> str_includes (toUpperCase (path f)) ''CHANGELOG.MD'')"
proof -
  have clean: "off_denylist (docs_pass h' m s a (candidate_loop h' m r ps []))" for h' m s a r ps
    by (intro docs_pass_denylist candidate_loop_denylist) (simp add: off_denylist_def)
  have passes: "\<forall>f \<in> set (docs_pass h' m s a (candidate_loop h' m r ps [])).
      \<not> shouldSkipFile (path f) \<and> \<not> str_includes (toUpperCase (path f)) ''CHANGELOG.MD''" for h' m s a r ps
    using clean [of h' m s a r ps] not_skipped_no_changelog_md
    by (auto simp: off_denylist_def list_all_iff)
  show ?thesis
    using passes
    by (auto simp: fetchAllDocs_def Let_def docs_phase_passes split: sum.splits option.splits)
qed

theorem denylist_enforced_witness:
  "files (fetchAllDocs changelog_host ''https://github.com/o/r'' (Some Docs) (Some (Finite 50))) =
     [\<lparr>path = ''docs/CHANGELOG.rst'', file_content = ''changes'', file_type = ''rst'',
       estimatedTokens = Some 2, truncated = False, originalSize = None, largeFile = False\<rparr>]
   \<and> \<not> shouldSkipFile ''docs/CHANGELOG.rst''
   \<and> \<not> str_includes (toUpperCase ''docs/CHANGELOG.rst'') ''CHANGELOG.MD''"
  using denylist_enforced [of changelog_host "Finite 50" Docs "''a''" "''r''" "''https://github.com/o/r''" "Some (Finite 50)"]
  by (simp add: changelog_files)

text \<open>
  C2: the pass over the type-definition directories pushes what it fetched as it is. For
  a repository whose root directory lists \<open>big.d.ts\<close>, a file of 200001 characters, the
  types phase returns that file whole and not marked as truncated.
\<close>

theorem types_directory_keeps_large_file:
  "map (\<lambda>f. (path f, length (file_content f), truncated f))
       (files (fetchAllDocs (big_types_host (replicate 200001 CHR ''x'')) ''https://github.com/o/r''
                 (Some Types) (Some (Finite 50))))
     = [(''big.d.ts'', 200001, False)]"
  by (simp add: big_files plain_file_def)

section \<open>The crawl returns, and succeeds when it found a record\<close>

lemma nullable_ignore_case [simp]: "nullable (ignore_case r) = nullable r"
  by (induction r) simp_all









section \<open>The resolver and the failure of one remote call\<close>

lemma repoApiUrl_o_r: "repoApiUrl ''https://github.com/o/r'' = ''https://api.github.com/repos/o/r''"
  unfolding repoApiUrl_def Let_def by (rule repo_addresses(1))

lemma empty_object_parsed: "JSON_parse ''{}'' = Some (JObj [])"
  by code_simp

lemma object_entries_None: "(object_entries v = None) = (v = JNull)"
  by (cases v) simp_all

lemma analysis_success_failed: "\<not> analysis_success (failed e)"
  by (simp add: failed_def)

text \<open>
  Claim C7. In the resolver a remote call that fails is meant to cost its own facet only,
  the metadata call apart. The fetch of the language histogram is not inside a \<open>try\<close> of
  its own, unlike the fetches of the readme and of the root listing: on a repository whose
  metadata is served (status 200, body \<open>{}\<close>) and whose histogram fetch is rejected, the
  rejection reaches the outer \<open>catch\<close>, and the whole resolution fails with the default
  result and the message of the rejection.
\<close>

theorem languages_failure_aborts:
  "analyzeRepository language_shares languages_down_host ''https://github.com/o/r'' =
     \<lparr>primaryLanguage = ''unknown'', languages = [], documentationSources = [],
      packageManager = None,
      projectStructure = \<lparr>structure_type = Standard, mainPath = None, packages = None,
                           hasDocs = False, hasTests = False, hasExamples = False\<rparr>,
      analysis_success = False, analysis_error = Some (NetworkError ''fetch failed'')\<rparr>"
  unfolding analyzeRepository_def Let_def repoApiUrl_o_r
  by (simp add: languages_down_host_def is_ok_def response_json_def response_text_def
        empty_object_parsed failed_def default_structure_def)

text \<open>
  When the resolution succeeds: exactly when the metadata call is answered ok with a JSON
  body other than \<open>null\<close> whose homepage can be tested, and the histogram call is answered
  (with any status) with a JSON body other than \<open>null\<close>. The calls for the readme, the root
  listing and the packages have no part in it: their failures are caught where they occur.
\<close>

theorem resolution_succeeds_iff:
  "analysis_success (analyzeRepository language_shares h address) =
     (\<exists>repoData status body languagesData.
        get_json h (repoApiUrl address) = Got repoData \<and> repoData \<noteq> JNull
        \<and> homepage_sources repoData \<noteq> Throws
        \<and> fetch h (repoApiUrl address @ ''/languages'') = Response status (Some body)
        \<and> JSON_parse body = Some languagesData \<and> languagesData \<noteq> JNull)"
  unfolding analyzeRepository_def Let_def get_json_def
  by (auto simp: analysis_success_failed object_entries_None response_json_def response_text_def
           split: response.splits option.splits got.splits outcome.splits if_splits prod.splits)

section \<open>The assembler renders the template\<close>

lemma foldl_append_items: "foldl (\<lambda>md x. md @ f x) start xs = start @ concat (map f xs)"
  by (induction xs arbitrary: start) simp_all

text \<open>
  C9. The markdown that the assembler returns is the fixed template, filled with the six
  fields of its input and nothing else: the title, the four sections in their order and
  the closing attribution line. The assembler is a function of its input, so two calls with
  the same input return the same string, character by character.
\<close>

theorem output_is_template:
  "markdown (generateOutput i) =
     four_section_template (repoName i) (repoUrl i) (purpose i)
       (map (\<lambda>c. (concept_name c, concept_description c)) (concepts i))
       (map (\<lambda>a. (api_signature a, api_description a)) (key_apis i))
       (map (\<lambda>p. (pattern p, pattern_description p)) (patterns i))"
proof -
  have cs: "foldl (\<lambda>md c. md @ concept_name c @ '' - '' @ concept_description c @ [nl, nl]) start (concepts i)
      = start @ item_paragraphs (map (\<lambda>c. (concept_name c, concept_description c)) (concepts i))" for start
    by (simp add: foldl_append_items item_paragraphs_def comp_def)
  have as: "foldl (\<lambda>md a. md @ api_signature a @ '' - '' @ api_description a @ [nl, nl]) start (key_apis i)
      = start @ item_paragraphs (map (\<lambda>a. (api_signature a, api_description a)) (key_apis i))" for start
    by (simp add: foldl_append_items item_paragraphs_def comp_def)
  have ps: "foldl (\<lambda>md p. md @ pattern p @ '' - '' @ pattern_description p @ [nl, nl]) start (patterns i)
      = start @ item_paragraphs (map (\<lambda>p. (pattern p, pattern_description p)) (patterns i))" for start
    by (simp add: foldl_append_items item_paragraphs_def comp_def)
  show ?thesis
    unfolding generateOutput_def Let_def cs as ps
    by (simp add: four_section_template_def title_line_def template_section_def attribution_line_def)
qed

section \<open>The worked examples, evaluated\<close>

lemma example_A_parsed:
  "parseMarkdown example_A =
     \<lparr>sections = [\<lparr>heading = ''Intro'', level = 1, content = ''Hello''\<rparr>,
                   \<lparr>heading = ''API'', level = 2, content = example_A_item\<rparr>],
      codeBlocks = [], links = []\<rparr>"
  by code_simp

lemma example_A_raw:
  "extract_raw example_A_item ''md'' =
     Some [\<lparr>signature = ''foo(x)'', description = ''API method'', category = ''inline''\<rparr>,
           \<lparr>signature = ''foo(x)'', description = ''does foo'', category = ''list''\<rparr>]"
  by code_simp

lemma example_A_extracted:
  "extractAllApis example_A_item ''md'' =
     Some \<lparr>apis = [\<lparr>signature = ''foo(x)'', description = ''API method'', category = ''inline''\<rparr>],
           success = True\<rparr>"
  by (simp add: extractAllApis_def example_A_raw)

text \<open>
  C1, as stated, fails in its last part: extracting from the second section of example A
  gives no entry with the description \<open>does foo\<close>; the descriptions of the entries
  returned are the one description \<open>API method\<close>.
\<close>

theorem example_A_description_counterexample:
  "map_option (map description \<circ> apis)
     (extractAllApis (content (sections (parseMarkdown example_A) ! 1)) ''md'') = Some [''API method'']"
  by (simp add: example_A_parsed example_A_extracted)

text \<open>
  C1, amended. Parsing example A gives the two sections \<open>Intro\<close> (level 1, content
  \<open>Hello\<close>) and \<open>API\<close> (level 2, content the list item), no code block and no link.
  Extracting from the second section's content as markdown gives exactly one entry: signature
  \<open>foo(x)\<close>, description \<open>API method\<close>, category \<open>inline\<close>. The list-item pass does push
  an entry with the description \<open>does foo\<close>, but after the inline-code pass has pushed
  the same signature, so the removal of duplicates drops it.
\<close>

theorem example_A_result:
  "parseMarkdown example_A =
     \<lparr>sections = [\<lparr>heading = ''Intro'', level = 1, content = ''Hello''\<rparr>,
                   \<lparr>heading = ''API'', level = 2, content = example_A_item\<rparr>],
      codeBlocks = [], links = []\<rparr>
   \<and> extract_raw (content (sections (parseMarkdown example_A) ! 1)) ''md'' =
       Some [\<lparr>signature = ''foo(x)'', description = ''API method'', category = ''inline''\<rparr>,
             \<lparr>signature = ''foo(x)'', description = ''does foo'', category = ''list''\<rparr>]
   \<and> extractAllApis (content (sections (parseMarkdown example_A) ! 1)) ''md'' =
       Some \<lparr>apis = [\<lparr>signature = ''foo(x)'', description = ''API method'', category = ''inline''\<rparr>],
             success = True\<rparr>"
  by (simp add: example_A_parsed example_A_extracted example_A_raw)

lemma example_B_no_gate: "\<not> str_includes example_B ''package.json''"
  by code_simp

lemma example_B_extracted: "extractAllApis example_B ''json'' = Some \<lparr>apis = [], success = True\<rparr>"
  by (simp add: extractAllApis_def extract_raw_def example_B_no_gate)

text \<open>
  C6, as stated, fails: for the manifest of example B the extractor returns no entry at
  all, so none for \<open>.\<close>, \<open>main\<close> or \<open>types\<close>.
\<close>

theorem example_B_counterexample:
  "map_option apis (extractAllApis example_B ''json'') = Some []"
  by (simp add: example_B_extracted)

lemma example_B_named_gate: "str_includes example_B_named ''package.json''"
  by code_simp

lemma example_B_named_apis:
  "manifest_apis example_B_named =
     [\<lparr>signature = ''default export'', description = ''Exported from ./index.js'', category = ''export''\<rparr>,
      \<lparr>signature = ''main'', description = ''Main entry: ./index.js'', category = ''export''\<rparr>,
      \<lparr>signature = ''types'', description = ''TypeScript definitions: ./index.d.ts'',
        category = ''export''\<rparr>]"
  by code_simp

lemma example_B_named_extracted:
  "extractAllApis example_B_named ''json'' =
     Some \<lparr>apis = manifest_apis example_B_named, success = True\<rparr>"
  by (simp add: extractAllApis_def extract_raw_def example_B_named_gate example_B_named_apis)

text \<open>
  C6, amended. With content type \<open>json\<close> the extractor reads a manifest only when its
  text contains \<open>package.json\<close>. The manifest of example B does not, and yields no entry.
  The same manifest with the member \<open>"name":"package.json"\<close> yields three entries of
  category \<open>export\<close>, with the signatures \<open>default export\<close> (for the key \<open>.\<close>),
  \<open>main\<close> and \<open>types\<close>.
\<close>

theorem example_B_result:
  "extractAllApis example_B ''json'' = Some \<lparr>apis = [], success = True\<rparr>
   \<and> extractAllApis example_B_named ''json'' =
       Some \<lparr>apis =
         [\<lparr>signature = ''default export'', description = ''Exported from ./index.js'', category = ''export''\<rparr>,
          \<lparr>signature = ''main'', description = ''Main entry: ./index.js'', category = ''export''\<rparr>,
          \<lparr>signature = ''types'', description = ''TypeScript definitions: ./index.d.ts'',
            category = ''export''\<rparr>],
         success = True\<rparr>"
  by (simp add: example_B_extracted example_B_named_extracted example_B_named_apis)

end
